theory Spec2Isabelle
  imports Main "HOL-Library.AList"
begin

section \<open>Strings\<close>

text \<open>
  JavaScript strings are modelled as \<^typ>\<open>string\<close>: a list of bytes, the UTF-8 form of the
  text. The helpers below are the string methods the server calls
  (\<^verbatim>\<open>trim\<close>, \<^verbatim>\<open>split\<close>, \<^verbatim>\<open>pop\<close>, \<^verbatim>\<open>replace\<close>, \<^verbatim>\<open>join\<close>, \<^verbatim>\<open>toString\<close>),
  restricted to the argument shapes that occur in the source.
\<close>

definition newline :: string where
  "newline = [CHR 0x0A]"

definition isWhiteSpace :: "char \<Rightarrow> bool" where
  \<comment> \<open>the ASCII part of what \<^verbatim>\<open>trim\<close> and the regular expression class \<^verbatim>\<open>\s\<close> strip\<close>
  "isWhiteSpace c = (c \<in> set [CHR 0x20, CHR 0x09, CHR 0x0A, CHR 0x0B, CHR 0x0C, CHR 0x0D])"

definition trim :: "string \<Rightarrow> string" where
  "trim s = rev (dropWhile isWhiteSpace (rev (dropWhile isWhiteSpace s)))"

fun splitWith :: "(char \<Rightarrow> bool) \<Rightarrow> string \<Rightarrow> string list" where
  "splitWith p [] = [[]]"
| "splitWith p (c # cs) =
     (if p c then [] # splitWith p cs
      else (case splitWith p cs of
              [] \<Rightarrow> [[c]]
            | seg # segs \<Rightarrow> (c # seg) # segs))"

definition split_on :: "char \<Rightarrow> string \<Rightarrow> string list" where
  \<comment> \<open>\<^verbatim>\<open>s.split(sep)\<close> for a separator of one character\<close>
  "split_on sep s = splitWith (\<lambda>c. c = sep) s"

definition pop :: "'a list \<Rightarrow> 'a option" where
  \<comment> \<open>\<^verbatim>\<open>xs.pop()\<close>: the last element, \<^verbatim>\<open>undefined\<close> on the empty array\<close>
  "pop xs = (case rev xs of [] \<Rightarrow> None | x # _ \<Rightarrow> Some x)"

fun startsWith :: "string \<Rightarrow> string \<Rightarrow> bool" where
  "startsWith s [] = True"
| "startsWith [] (p # ps) = False"
| "startsWith (c # cs) (p # ps) = (c = p \<and> startsWith cs ps)"

fun replace :: "string \<Rightarrow> string \<Rightarrow> string \<Rightarrow> string" where
  \<comment> \<open>\<^verbatim>\<open>s.replace(pat, rep)\<close> with a string pattern: the first occurrence only\<close>
  "replace pat rep [] = (if pat = [] then rep else [])"
| "replace pat rep (c # cs) =
     (if startsWith (c # cs) pat then rep @ drop (length pat) (c # cs)
      else c # replace pat rep cs)"

fun join :: "string \<Rightarrow> string list \<Rightarrow> string" where
  "join sep [] = []"
| "join sep [x] = x"
| "join sep (x # y # ys) = x @ sep @ join sep (y # ys)"

definition digitChar :: "nat \<Rightarrow> char" where
  \<comment> \<open>the character of a decimal digit, for \<open>d < 10\<close>\<close>
  "digitChar d = ''0123456789'' ! d"

fun digitsOf :: "nat \<Rightarrow> string \<Rightarrow> string" where
  "digitsOf n acc =
     (if n < 10 then digitChar n # acc
      else digitsOf (n div 10) (digitChar (n mod 10) # acc))"

definition toString :: "nat \<Rightarrow> string" where
  \<comment> \<open>\<^verbatim>\<open>n.toString()\<close> and template interpolation of a non-negative integer\<close>
  "toString n = digitsOf n []"

subsection \<open>The form serialiser of URLSearchParams\<close>

text \<open>
  \<^verbatim>\<open>URLSearchParams\<close> is an ordered list of name/value pairs; \<^verbatim>\<open>append\<close> adds at the end,
  \<^verbatim>\<open>set\<close> overwrites the first pair of that name and drops the others, and
  \<^verbatim>\<open>toString\<close> is the \<^verbatim>\<open>application/x-www-form-urlencoded\<close> serialiser: letters, digits
  and \<^verbatim>\<open>*-._\<close> stay, a space becomes \<^verbatim>\<open>+\<close>, every other byte becomes \<^verbatim>\<open>%XX\<close>.
\<close>

type_synonym URLSearchParams = "(string \<times> string) list"

definition append_param :: "string \<Rightarrow> string \<Rightarrow> URLSearchParams \<Rightarrow> URLSearchParams" where
  "append_param name v ps = ps @ [(name, v)]"

definition set_param :: "string \<Rightarrow> string \<Rightarrow> URLSearchParams \<Rightarrow> URLSearchParams" where
  "set_param name v ps =
     (if name \<in> fst ` set ps
      then takeWhile (\<lambda>p. fst p \<noteq> name) ps @ [(name, v)]
           @ filter (\<lambda>p. fst p \<noteq> name) (tl (dropWhile (\<lambda>p. fst p \<noteq> name) ps))
      else ps @ [(name, v)])"

definition hexDigit :: "nat \<Rightarrow> char" where
  \<comment> \<open>the character of a hexadecimal digit in upper case, for \<open>d < 16\<close>\<close>
  "hexDigit d = ''0123456789ABCDEF'' ! d"

definition formUnreserved :: "char \<Rightarrow> bool" where
  "formUnreserved c =
     (c \<in> set ''ABCDEFGHIJKLMNOPQRSTUVWXYZabcdefghijklmnopqrstuvwxyz0123456789*-._'')"

definition encodeByte :: "char \<Rightarrow> string" where
  "encodeByte c =
     (if formUnreserved c then [c]
      else if c = CHR 0x20 then ''+''
      else [CHR ''%'', hexDigit (of_char c div 16), hexDigit (of_char c mod 16)])"

definition formEncode :: "string \<Rightarrow> string" where
  "formEncode s = concat (map encodeByte s)"

definition serialize :: "URLSearchParams \<Rightarrow> string" where
  "serialize ps = join ''&'' (map (\<lambda>(name, v). formEncode name @ ''='' @ formEncode v) ps)"

section \<open>Parsed documents\<close>

text \<open>
  \<^verbatim>\<open>cheerio.load(html)\<close> is the HTML parser of a library; the server only queries the
  tree it returns. A document is the list of the root's children. The queries below are
  the selectors the source uses, over that tree, in document order.
\<close>

datatype node =
    Element string "(string \<times> string) list" "node list"
  | TextNode string

primrec textContent :: "node \<Rightarrow> string" where
  "textContent (Element tg as cs) = concat (map textContent cs)"
| "textContent (TextNode s) = s"

primrec subtree :: "node \<Rightarrow> node list" where
  \<comment> \<open>the node and its descendants, in document order\<close>
  "subtree (Element tg as cs) = Element tg as cs # concat (map subtree cs)"
| "subtree (TextNode s) = [TextNode s]"

primrec descendants :: "node \<Rightarrow> node list" where
  "descendants (Element tg as cs) = concat (map subtree cs)"
| "descendants (TextNode s) = []"

primrec below :: "(node \<Rightarrow> bool) \<Rightarrow> node \<Rightarrow> bool \<Rightarrow> node list" where
  \<comment> \<open>the nodes of the tree that have a proper ancestor satisfying \<open>R\<close> (\<open>inside\<close> says that
      an ancestor above the tree already does); each node once, in document order\<close>
  "below R (Element tg as cs) inside =
     (if inside then [Element tg as cs] else [])
     @ concat (map (\<lambda>c. below R c (inside \<or> R (Element tg as cs))) cs)"
| "below R (TextNode s) inside = (if inside then [TextNode s] else [])"

primrec attr :: "string \<Rightarrow> node \<Rightarrow> string option" where
  "attr name (Element tg as cs) = map_of as name"
| "attr name (TextNode s) = None"

primrec isTag :: "string \<Rightarrow> node \<Rightarrow> bool" where
  "isTag name (Element tg as cs) = (tg = name)"
| "isTag name (TextNode s) = False"

primrec isElement :: "node \<Rightarrow> bool" where
  "isElement (Element tg as cs) = True"
| "isElement (TextNode s) = False"

primrec childNodes :: "node \<Rightarrow> node list" where
  "childNodes (Element tg as cs) = cs"
| "childNodes (TextNode s) = []"

definition hasId :: "string \<Rightarrow> node \<Rightarrow> bool" where
  \<comment> \<open>selector \<^verbatim>\<open>#name\<close>\<close>
  "hasId name n = (attr ''id'' n = Some name)"

definition hasClass :: "string \<Rightarrow> node \<Rightarrow> bool" where
  \<comment> \<open>selector \<^verbatim>\<open>.name\<close>: a whitespace-separated word of the class attribute\<close>
  "hasClass name n =
     (case attr ''class'' n of
        None \<Rightarrow> False
      | Some v \<Rightarrow> name \<in> set (splitWith isWhiteSpace v))"

definition hasAttr :: "string \<Rightarrow> string \<Rightarrow> node \<Rightarrow> bool" where
  \<comment> \<open>selector \<^verbatim>\<open>[name='v']\<close>\<close>
  "hasAttr name v n = (attr name n = Some v)"

definition select :: "(node \<Rightarrow> bool) \<Rightarrow> node list \<Rightarrow> node list" where
  \<comment> \<open>\<^verbatim>\<open>$(selector)\<close>: the matching elements of the document\<close>
  "select P doc = filter P (concat (map subtree doc))"

definition find_below :: "(node \<Rightarrow> bool) \<Rightarrow> (node \<Rightarrow> bool) \<Rightarrow> node list \<Rightarrow> node list" where
  \<comment> \<open>\<^verbatim>\<open>$(R).find(Q)\<close>: the elements matching \<open>Q\<close> below an element matching \<open>R\<close>\<close>
  "find_below R Q doc = filter Q (concat (map (\<lambda>n. below R n False) doc))"

definition findIn :: "node \<Rightarrow> (node \<Rightarrow> bool) \<Rightarrow> node list" where
  \<comment> \<open>\<^verbatim>\<open>$(elem).find(Q)\<close> for one element\<close>
  "findIn elem Q = filter Q (descendants elem)"

definition first :: "'a list \<Rightarrow> 'a list" where
  \<comment> \<open>\<^verbatim>\<open>.first()\<close>: the selection reduced to its first element\<close>
  "first sel = take 1 sel"

definition attrOf :: "node list \<Rightarrow> string \<Rightarrow> string option" where
  \<comment> \<open>\<^verbatim>\<open>.attr(name)\<close>: the attribute of the first element of the selection\<close>
  "attrOf sel name = (case sel of [] \<Rightarrow> None | n # _ \<Rightarrow> attr name n)"

definition textOf :: "node list \<Rightarrow> string" where
  \<comment> \<open>\<^verbatim>\<open>.text()\<close>: the text of every element of the selection, concatenated\<close>
  "textOf sel = concat (map textContent sel)"

definition orEmpty :: "string option \<Rightarrow> string" where
  \<comment> \<open>\<^verbatim>\<open>x || ""\<close> for \<^verbatim>\<open>x\<close> a string or \<^verbatim>\<open>undefined\<close>\<close>
  "orEmpty x = (case x of None \<Rightarrow> [] | Some s \<Rightarrow> s)"

definition truthy :: "string option \<Rightarrow> bool" where
  \<comment> \<open>a string, \<^verbatim>\<open>null\<close> or \<^verbatim>\<open>undefined\<close> in a condition: false when absent or empty\<close>
  "truthy x = (case x of None \<Rightarrow> False | Some s \<Rightarrow> s \<noteq> [])"


section \<open>Session data\<close>

record search_state =
  currentQuery :: "string option"
  currentPage :: int
  nextFormData :: "string option"

record captcha_state =
  challenge :: "string option"
  images :: "string list option"
  action :: "string option"
  submitValue :: "string option"
  checkboxNames :: "string list option"

record search_result =
  title :: string
  url :: string
  description :: string

datatype parse_data =
    Captcha string string "string list"
    \<comment> \<open>mode "captcha": error, captcha.challenge, captcha.images\<close>
  | CaptchaFailed string string
    \<comment> \<open>mode "captcha-failed": error, next\<close>
  | CaptchaSuccess
  | Unknown
  | Results nat "search_result list"
    \<comment> \<open>mode "results": hasMore (the number of next-page forms), results\<close>

record tool_result =
  content :: string
  isError :: bool

section \<open>The outside world\<close>

record request =
  req_method :: string
  req_url :: string
  req_headers :: "(string \<times> string) list"
  req_body :: "string option"

datatype response =
    Rejected string
    \<comment> \<open>\<^verbatim>\<open>fetch\<close> throws an Error with this message\<close>
  | Response bool nat string "string + string"
    \<comment> \<open>ok, status, statusText, and the body: its content, or the message of the Error
        that reading it throws\<close>

record bitmap =
  bwidth :: int
  bheight :: int
  pixels :: string

datatype ctx_op =
    SetFillStyle string
  | SetFont string
  | FillRect int int int int
  | DrawImage9 bitmap int int int int int int int int
  | DrawImage5 bitmap int int int int
  | FillText string int int

record canvas =
  cwidth :: int
  cheight :: int
  drawn :: "ctx_op list"

text \<open>
  Everything the server takes from its libraries and from the network is a field of the
  environment: the HTML parser (\<^verbatim>\<open>cheerio.load\<close>), the URL constructor with its base
  (\<^verbatim>\<open>new URL(input, base).href\<close>), \<^verbatim>\<open>fetch\<close>, the JPEG decoder, the overlay asset as
  \<^verbatim>\<open>overlay()\<close> reads and decodes it, the PNG encoder, \<^verbatim>\<open>randomBytes(16).toString("hex")\<close>
  for the \<open>k\<close>-th draw, the port of the image server and the locale. An exception is the
  left injection of a sum, carrying the message of the Error. \<open>fetch\<close> sees the requests
  issued so far, so the same request may be answered differently at different times.

  The world is the mutable state of the process: the two module variables, the map of
  stored puzzle images (an association list, updated as \<^verbatim>\<open>Map.set\<close> does), the log of the
  requests issued so far and the number of random draws. The log is what "no network
  request" is stated on. The timer that deletes a stored image after five minutes is
  outside the model.
\<close>

record env =
  load :: "string \<Rightarrow> node list"
  new_URL :: "string \<Rightarrow> string \<Rightarrow> string + string"
  fetch :: "request list \<Rightarrow> request \<Rightarrow> response"
  decodeJPEGFromStream :: "string \<Rightarrow> string + bitmap"
  overlayAsset :: "string + bitmap"
  encodePNGToStream :: "canvas \<Rightarrow> string"
  randomBytesHex :: "nat \<Rightarrow> string"
  port :: nat
  resolvedLocale :: string

record world =
  searchState :: search_state
  captchaState :: captcha_state
  captchaImages :: "(string \<times> string) list"
  requests :: "request list"
  draws :: nat

definition do_fetch :: "env \<Rightarrow> request \<Rightarrow> world \<Rightarrow> response \<times> world" where
  \<comment> \<open>one call of \<^verbatim>\<open>fetch\<close>: the request is logged, the network answers\<close>
  "do_fetch e r w = (fetch e (requests w) r, w\<lparr>requests := requests w @ [r]\<rparr>)"


section \<open>The response parser\<close>

definition tileFilename :: "string \<Rightarrow> string" where
  \<comment> \<open>\<^verbatim>\<open>src.split("/").pop()?.replace(".jpg", "") || ""\<close>\<close>
  "tileFilename src =
     (case pop (split_on (CHR ''/'') src) of
        None \<Rightarrow> []
      | Some seg \<Rightarrow> replace ''.jpg'' [] seg)"

fun eachTile :: "env \<Rightarrow> node list \<Rightarrow> string list \<times> string list
                  \<Rightarrow> string + (string list \<times> string list)" where
  \<comment> \<open>the callback over the tile images, pushing to \<^verbatim>\<open>images\<close> and \<^verbatim>\<open>checkboxNames\<close>;
      \<^verbatim>\<open>new URL\<close> may throw, which ends the loop\<close>
  "eachTile e [] (imgs, names) = Inr (imgs, names)"
| "eachTile e (elem # rest) (imgs, names) =
     (let src = orEmpty (attr ''src'' elem)
      in case new_URL e src ''https://duckduckgo.com'' of
           Inl msg \<Rightarrow> Inl msg
         | Inr absoluteUrl \<Rightarrow>
             (let filename = tileFilename src
              in eachTile e rest
                   (imgs @ [absoluteUrl],
                    if filename \<noteq> [] then names @ [''image-check_'' @ filename] else names)))"

definition eachResult :: "node \<Rightarrow> search_result list \<Rightarrow> search_result list" where
  \<comment> \<open>the callback over the \<^verbatim>\<open>.result\<close> elements, pushing to \<^verbatim>\<open>results\<close>\<close>
  "eachResult elem results =
     (let titleElement = first (findIn elem (hasClass ''result__a''));
          urlElement = first (findIn elem (hasClass ''result__a''));
          descriptionElement = first (findIn elem (hasClass ''result__snippet''))
      in if length titleElement > 0 then
           (let title' = trim (textOf titleElement);
                url' = orEmpty (attrOf urlElement ''href'');
                description' =
                  (if length descriptionElement > 0 then trim (textOf descriptionElement)
                   else [])
            in if title' \<noteq> [] then
                 results @ [\<lparr>title = title', url = url', description = description'\<rparr>]
               else results)
         else results)"

definition eachInput :: "node \<Rightarrow> URLSearchParams \<Rightarrow> URLSearchParams" where
  \<comment> \<open>the body of the loop over the inputs of the next-page form\<close>
  "eachInput input formData =
     (if truthy (attr ''name'' input) then
        append_param (orEmpty (attr ''name'' input)) (orEmpty (attr ''value'' input)) formData
      else formData)"

definition isNextForm :: "node \<Rightarrow> bool" where
  \<comment> \<open>an element of \<^verbatim>\<open>$("form>[value='Next']").parent()\<close>: a form with an element child
      whose value attribute is "Next"\<close>
  "isNextForm n =
     (isTag ''form'' n \<and> list_ex (\<lambda>c. isElement c \<and> hasAttr ''value'' ''Next'' c) (childNodes n))"

definition parseDocument :: "env \<Rightarrow> node list \<Rightarrow> world \<Rightarrow> (string + parse_data) \<times> world" where
  \<comment> \<open>the body of \<^verbatim>\<open>parseSearchResults\<close> after \<^verbatim>\<open>cheerio.load\<close>\<close>
  "parseDocument e doc w =
     (let challengeForm = select (hasId ''challenge-form'') doc
      in if length challengeForm > 0 then
           (let action' = orEmpty (attrOf challengeForm ''action'');
                submitButton =
                  find_below (hasId ''challenge-form'')
                    (\<lambda>n. isTag ''button'' n \<and> hasAttr ''name'' ''challenge-submit'' n) doc;
                submitValue' = orEmpty (attrOf submitButton ''value'')
            in case eachTile e
                      (find_below (hasId ''challenge-form'') (hasClass ''anomaly-modal__image'') doc)
                      ([], []) of
                 Inl msg \<Rightarrow> (Inl msg, w)
               | Inr (images', checkboxNames') \<Rightarrow>
                   (let challenge' =
                          textOf (find_below (hasId ''challenge-form'')
                                    (hasClass ''anomaly-modal__instructions'') doc)
                    in (Inr (Captcha ''Search blocked by CAPTCHA challenge.'' challenge' images'),
                        w\<lparr>captchaState :=
                             \<lparr>challenge = Some challenge', images = Some images',
                              action = Some action', submitValue = Some submitValue',
                              checkboxNames = Some checkboxNames'\<rparr>\<rparr>)))
         else
           (let errorForm = select (hasId ''error-form'') doc
            in if length errorForm > 0 then
                 (let instruction =
                        first (find_below (hasId ''error-form'')
                                 (hasClass ''anomaly-modal__error-instructions'') doc)
                  in (Inr (CaptchaFailed (trim (textOf instruction))
                             (orEmpty (attrOf errorForm ''action''))), w))
               else
                 (let successForm = select (hasId ''success-form'') doc
                  in if length successForm > 0 then (Inr CaptchaSuccess, w)
                     else
                       (let resultsElement = select (hasClass ''results'') doc
                        in if length resultsElement = 0 then (Inr Unknown, w)
                           else
                             (let results = fold eachResult (select (hasClass ''result'') doc) [];
                                  hasMore = length (select isNextForm doc)
                              in if hasMore = 0 then (Inr (Results hasMore results), w)
                                 else
                                   (let inputs = find_below isNextForm (isTag ''input'') doc;
                                        formData = fold eachInput inputs []
                                    in (Inr (Results hasMore results),
                                        w\<lparr>searchState :=
                                             (searchState w)\<lparr>nextFormData :=
                                                Some (serialize formData)\<rparr>\<rparr>)))))))"

definition parseSearchResults :: "env \<Rightarrow> string \<Rightarrow> world \<Rightarrow> (string + parse_data) \<times> world" where
  "parseSearchResults e html w = parseDocument e (load e html) w"


section \<open>Constants of the server\<close>

definition supportedRegions :: "(string \<times> string) list" where
  "supportedRegions =
     [(''global'', ''''), (''argentina'', ''ar-es''), (''australia'', ''au-en''),
      (''austria'', ''at-de''), (''belgium_fr'', ''be-fr''), (''belgium_nl'', ''be-nl''),
      (''brazil'', ''br-pt''), (''bulgaria'', ''bg-bg''), (''canada_en'', ''ca-en''),
      (''canada_fr'', ''ca-fr''), (''catalonia'', ''ct-ca''), (''chile'', ''cl-es''),
      (''china'', ''cn-zh''), (''colombia'', ''co-es''), (''croatia'', ''hr-hr''),
      (''czech_republic'', ''cz-cs''), (''denmark'', ''dk-da''), (''estonia'', ''ee-et''),
      (''finland'', ''fi-fi''), (''france'', ''fr-fr''), (''germany'', ''de-de''),
      (''greece'', ''gr-el''), (''hong_kong'', ''hk-tzh''), (''hungary'', ''hu-hu''),
      (''iceland'', ''is-is''), (''india_en'', ''in-en''), (''indonesia_en'', ''id-en''),
      (''ireland'', ''ie-en''), (''israel_en'', ''il-en''), (''italy'', ''it-it''),
      (''japan'', ''jp-jp''), (''korea'', ''kr-kr''), (''latvia'', ''lv-lv''),
      (''lithuania'', ''lt-lt''), (''malaysia_en'', ''my-en''), (''mexico'', ''mx-es''),
      (''netherlands'', ''nl-nl''), (''new_zealand'', ''nz-en''), (''norway'', ''no-no''),
      (''pakistan_en'', ''pk-en''), (''peru'', ''pe-es''), (''philippines_en'', ''ph-en''),
      (''poland'', ''pl-pl''), (''portugal'', ''pt-pt''), (''romania'', ''ro-ro''),
      (''russia'', ''ru-ru''), (''saudi_arabia'', ''xa-ar''), (''singapore'', ''sg-en''),
      (''slovakia'', ''sk-sk''), (''slovenia'', ''sl-sl''), (''south_africa'', ''za-en''),
      (''spain_ca'', ''es-ca''), (''spain_es'', ''es-es''), (''sweden'', ''se-sv''),
      (''switzerland_de'', ''ch-de''), (''switzerland_fr'', ''ch-fr''),
      (''taiwan'', ''tw-tzh''), (''thailand_en'', ''th-en''), (''turkey'', ''tr-tr''),
      (''us_english'', ''us-en''), (''us_spanish'', ''us-es''), (''ukraine'', ''ua-uk''),
      (''united_kingdom'', ''uk-en''), (''vietnam_en'', ''vn-en'')]"

definition supportedDateFrame :: "(string \<times> string) list" where
  "supportedDateFrame =
     [(''any'', ''''), (''past_day'', ''d''), (''past_week'', ''w''), (''past_month'', ''m''),
      (''past_year'', ''y'')]"

definition hostname :: string where
  "hostname = ''127.0.0.1''"

definition dquote :: string where
  "dquote = [CHR 0x22]"

definition acceptLanguage :: "env \<Rightarrow> string" where
  \<comment> \<open>\<^verbatim>\<open>lang = locale.split("-")[0]\<close>, then the header value\<close>
  "acceptLanguage e =
     (let lang = (case split_on (CHR ''-'') (resolvedLocale e) of [] \<Rightarrow> None | l # _ \<Rightarrow> Some l)
      in if \<not> truthy lang then ''en-US,en;q=0.9''
         else resolvedLocale e @ '','' @ orEmpty lang @ '';q=0.9'')"

definition defaultHeaders :: "env \<Rightarrow> (string \<times> string) list" where
  "defaultHeaders e =
     [(''User-Agent'', ''Mozilla/5.0 (X11; Linux x86_64; rv:143.0) Gecko/20100101 Firefox/143.0''),
      (''Accept'', ''text/html,application/xhtml+xml,application/xml;q=0.9,*/*;q=0.8''),
      (''Accept-Language'', acceptLanguage e),
      (''Accept-Encoding'', ''gzip, deflate, br, zstd''),
      (''Referer'', ''https://html.duckduckgo.com/''),
      (''Sec-GPC'', ''1''),
      (''Upgrade-Insecure-Requests'', ''1''),
      (''Sec-Fetch-Dest'', ''document''),
      (''Sec-Fetch-Mode'', ''navigate''),
      (''Sec-Fetch-Site'', ''same-origin''),
      (''DNT'', ''1''),
      (''Priority'', ''u=0, i''),
      (''Pragma'', ''no-cache''),
      (''Cache-Control'', ''no-cache''),
      (''TE'', ''trailers'')]"

definition formHeaders :: "env \<Rightarrow> (string \<times> string) list" where
  \<comment> \<open>the headers object the three POST requests spread \<^verbatim>\<open>defaultHeaders\<close> into\<close>
  "formHeaders e =
     defaultHeaders e
     @ [(''Content-Type'', ''application/x-www-form-urlencoded''),
        (''Origin'', ''https://html.duckduckgo.com'')]"

definition tileSize :: int where
  "tileSize = 256"

section \<open>From parsed data to the tool result\<close>

text \<open>
  The tile downloads start in list order, so the requests are logged in that order. The
  canvas is the list of the calls made on its drawing context; the array
  \<^verbatim>\<open>compositeImages\<close>, which the source fills and never reads, is left out.
\<close>

definition bufferOf :: "response \<Rightarrow> string option" where
  \<comment> \<open>what one tile download yields: the bytes of an ok response, \<^verbatim>\<open>null\<close> otherwise\<close>
  "bufferOf r =
     (case r of
        Rejected msg \<Rightarrow> None
      | Response ok status statusText body \<Rightarrow>
          (if ok then (case body of Inl msg \<Rightarrow> None | Inr bytes \<Rightarrow> Some bytes) else None))"

fun downloadAll :: "env \<Rightarrow> string list \<Rightarrow> world \<Rightarrow> string option list \<times> world" where
  \<comment> \<open>\<^verbatim>\<open>Promise.all(images.map(...))\<close>: the requests are issued in list order\<close>
  "downloadAll e [] w = ([], w)"
| "downloadAll e (imageUrl # rest) w =
     (if imageUrl = [] then
        (let (buffers, w') = downloadAll e rest w in (None # buffers, w'))
      else
        (let (response, w1) =
               do_fetch e \<lparr>req_method = ''GET'', req_url = imageUrl, req_headers = [],
                           req_body = None\<rparr> w;
             (buffers, w2) = downloadAll e rest w1
         in (bufferOf response # buffers, w2)))"

definition grid :: "(nat \<times> nat) list" where
  \<comment> \<open>the (row, col) pairs of the two nested loops, in the order they run\<close>
  "grid = concat (map (\<lambda>row. map (\<lambda>col. (row, col)) [0..<3]) [0..<3])"

fun drawTiles :: "env \<Rightarrow> string list \<Rightarrow> (nat \<times> nat) list \<Rightarrow> ctx_op list \<Rightarrow> string + ctx_op list" where
  \<comment> \<open>the compositing loop; decoding a tile may throw, which ends it\<close>
  "drawTiles e imageBuffers [] ops = Inr ops"
| "drawTiles e imageBuffers ((row, col) # rest) ops =
     (let index = row * 3 + col
      in case decodeJPEGFromStream e (imageBuffers ! index) of
           Inl msg \<Rightarrow> Inl msg
         | Inr img \<Rightarrow>
             drawTiles e imageBuffers rest
               (ops @ [DrawImage9 img 0 0 (bwidth img) (bheight img)
                         (int col * tileSize) (int row * tileSize) tileSize tileSize,
                       SetFillStyle ''red'',
                       SetFont ''20px Arial'',
                       FillText (toString index)
                         (int col * tileSize - 5) (int row * tileSize - 25)]))"

definition make :: "int \<Rightarrow> int \<Rightarrow> canvas" where
  \<comment> \<open>\<^verbatim>\<open>pureimage.make(w, h)\<close>\<close>
  "make w h = \<lparr>cwidth = w, cheight = h, drawn = []\<rparr>"

definition captchaMessage :: "env \<Rightarrow> string \<Rightarrow> string \<Rightarrow> string" where
  "captchaMessage e challenge' imageUrl =
     ''Search blocked by CAPTCHA challenge.'' @ newline @ newline
     @ ''Ask user to solve CAPTCHA: '' @ dquote @ challenge' @ dquote
     @ ''. Inform user that the search requires CAPTCHA to be solved. Inform user to check this image ''
     @ dquote @ ''http://'' @ hostname @ '':'' @ toString (port e) @ imageUrl @ dquote
     @ '' and reply the result numbers selected from 1 to 9. Do not attempt to solve it for user or provide suggestions.''
     @ newline @ newline
     @ ''Then use the '' @ dquote @ ''solve_captcha'' @ dquote
     @ '' tool with the list of result numbers.''"

definition resultsMessage :: "nat \<Rightarrow> search_result list \<Rightarrow> string \<Rightarrow> string" where
  "resultsMessage hasMore results query =
     ''Found '' @ toString (length results) @ '' results for query '' @ dquote @ query @ dquote
     @ ''. ''
     @ (if hasMore \<noteq> 0
        then ''More pages available via search_next tool. Only use it if you have yet to obtain enough information.''
        else ''No more pages available.'')
     @ newline @ newline @ ''Results:'' @ newline
     @ (let listing =
              join (newline @ newline)
                (map (\<lambda>r. ''('' @ title r @ '')['' @ url r @ '']'' @ newline @ description r) results)
        in if listing \<noteq> [] then listing else ''No results found.'')"

definition dataToResult :: "env \<Rightarrow> parse_data \<Rightarrow> string \<Rightarrow> world \<Rightarrow> (string + tool_result) \<times> world" where
  "dataToResult e data query w =
     (case data of
        CaptchaFailed error' next' \<Rightarrow>
          (Inr \<lparr>content = ''Captcha failed. Notify user to retry giving the captcha result.''
                          @ newline @ newline @ error' @ ''.'',
                isError = True\<rparr>, w)
      | CaptchaSuccess \<Rightarrow>
          (Inr \<lparr>content = ''Captcha successfully solved. You should call '' @ dquote @ ''search''
                          @ dquote @ '' tool again.'',
                isError = False\<rparr>, w)
      | Unknown \<Rightarrow>
          (Inr \<lparr>content = ''Search can not be performed due to unknown error.'',
                isError = False\<rparr>, w)
      | Captcha error' challenge' images' \<Rightarrow>
          (let (buffers, w1) = downloadAll e images' w;
               imageBuffers = List.map_filter id buffers
           in if length imageBuffers = 9 then
                (let canvas0 = make (tileSize * 3) (tileSize * 3);
                     ops0 = drawn canvas0
                            @ [SetFillStyle ''white'', FillRect 0 0 (tileSize * 3) (tileSize * 3)]
                 in case drawTiles e imageBuffers grid ops0 of
                      Inl msg \<Rightarrow> (Inl msg, w1)
                    | Inr ops1 \<Rightarrow>
                        (case overlayAsset e of
                           Inl msg \<Rightarrow> (Inl msg, w1)
                         | Inr overlayImage \<Rightarrow>
                             (let canvas' =
                                    canvas0\<lparr>drawn := ops1
                                       @ [DrawImage5 overlayImage 0 0 (tileSize * 3) (tileSize * 3)]\<rparr>;
                                  buffer = encodePNGToStream e canvas';
                                  imageUrl = ''/'' @ randomBytesHex e (draws w1) @ ''.png'';
                                  w2 = w1\<lparr>captchaImages :=
                                             AList.update imageUrl buffer (captchaImages w1),
                                           draws := draws w1 + 1\<rparr>
                              in (Inr \<lparr>content = captchaMessage e challenge' imageUrl,
                                       isError = False\<rparr>, w2))))
              else
                (Inr \<lparr>content = ''Search blocked by DuckDuckGo, this search cannot be performed.'',
                      isError = False\<rparr>, w1))
      | Results hasMore results \<Rightarrow>
          (Inr \<lparr>content = resultsMessage hasMore results query, isError = False\<rparr>, w))"


section \<open>The tools\<close>

text \<open>
  Each handler takes the world and returns the tool result with the world it leaves. A
  \<^verbatim>\<open>catch\<close> block turns an exception into an error result; what the handler had already
  written to the session stays written. A result without \<^verbatim>\<open>isError\<close> has \<open>isError = False\<close>.
  The arguments are those the input schema lets through: \<^verbatim>\<open>region\<close> and \<^verbatim>\<open>dateFrame\<close>
  are absent or a key of their table, and \<^verbatim>\<open>indices\<close> is a list of numbers, taken here as
  integers (a number that is not an integer selects no array element and is skipped by
  the inner guard of the loop, like an empty name). The \<^verbatim>\<open>fetch\<close> tool, which reads an
  article, does not touch the session and is not modelled.
\<close>

definition search :: "env \<Rightarrow> string \<Rightarrow> string option \<Rightarrow> string option \<Rightarrow> world
                        \<Rightarrow> tool_result \<times> world" where
  "search e query region dateFrame w0 =
     (let w = w0\<lparr>searchState :=
                   \<lparr>currentQuery = Some query, currentPage = 1, nextFormData = None\<rparr>\<rparr>;
          kl = (case region of None \<Rightarrow> None | Some r \<Rightarrow> map_of supportedRegions r);
          df = (case dateFrame of None \<Rightarrow> None | Some d \<Rightarrow> map_of supportedDateFrame d);
          p1 = set_param ''q'' query [];
          p2 = (if truthy region \<and> truthy kl then set_param ''kl'' (orEmpty kl) p1 else p1);
          p3 = (if truthy dateFrame \<and> truthy df then set_param ''df'' (orEmpty df) p2 else p2);
          searchParams = set_param ''b'' [] p3;
          (response, w1) =
            do_fetch e \<lparr>req_method = ''POST'', req_url = ''https://html.duckduckgo.com/html/'',
                        req_headers = formHeaders e,
                        req_body = Some (serialize searchParams)\<rparr> w
      in case response of
           Rejected msg \<Rightarrow>
             (\<lparr>content = ''Error performing search: '' @ msg, isError = True\<rparr>, w1)
         | Response ok status statusText body \<Rightarrow>
             if \<not> ok then
               (\<lparr>content = ''Error fetching search results: '' @ toString status @ '' ''
                            @ statusText,
                 isError = True\<rparr>, w1)
             else
               (case body of
                  Inl msg \<Rightarrow>
                    (\<lparr>content = ''Error performing search: '' @ msg, isError = True\<rparr>, w1)
                | Inr html \<Rightarrow>
                    (case parseSearchResults e html w1 of
                       (Inl msg, w2) \<Rightarrow>
                         (\<lparr>content = ''Error performing search: '' @ msg, isError = True\<rparr>, w2)
                     | (Inr data, w2) \<Rightarrow>
                         (case dataToResult e data query w2 of
                            (Inl msg, w3) \<Rightarrow>
                              (\<lparr>content = ''Error performing search: '' @ msg,
                                isError = True\<rparr>, w3)
                          | (Inr result, w3) \<Rightarrow> (result, w3)))))"

definition search_next :: "env \<Rightarrow> world \<Rightarrow> tool_result \<times> world" where
  "search_next e w0 =
     (if \<not> truthy (nextFormData (searchState w0)) \<or> currentPage (searchState w0) > 5 then
        (\<lparr>content = ''No next page available.'', isError = True\<rparr>, w0)
      else
        (let wa = w0\<lparr>searchState :=
                       (searchState w0)\<lparr>currentPage := currentPage (searchState w0) + 1\<rparr>\<rparr>;
             body = nextFormData (searchState wa);
             w = wa\<lparr>searchState := (searchState wa)\<lparr>nextFormData := None\<rparr>\<rparr>;
             (response, w1) =
               do_fetch e \<lparr>req_method = ''POST'', req_url = ''https://html.duckduckgo.com/html/'',
                           req_headers = formHeaders e, req_body = body\<rparr> w
         in case response of
              Rejected msg \<Rightarrow>
                (\<lparr>content = ''Error performing search: '' @ msg, isError = True\<rparr>, w1)
            | Response ok status statusText body' \<Rightarrow>
                if \<not> ok then
                  (\<lparr>content = ''Error fetching search results: '' @ toString status @ '' ''
                               @ statusText,
                    isError = True\<rparr>, w1)
                else
                  (case body' of
                     Inl msg \<Rightarrow>
                       (\<lparr>content = ''Error performing search: '' @ msg, isError = True\<rparr>, w1)
                   | Inr html \<Rightarrow>
                       (case parseSearchResults e html w1 of
                          (Inl msg, w2) \<Rightarrow>
                            (\<lparr>content = ''Error performing search: '' @ msg,
                              isError = True\<rparr>, w2)
                        | (Inr data, w2) \<Rightarrow>
                            (case dataToResult e data
                                    (orEmpty (currentQuery (searchState w2))) w2 of
                               (Inl msg, w3) \<Rightarrow>
                                 (\<lparr>content = ''Error performing search: '' @ msg,
                                   isError = True\<rparr>, w3)
                             | (Inr result, w3) \<Rightarrow> (result, w3))))))"

definition captchaActive :: "captcha_state \<Rightarrow> bool" where
  \<comment> \<open>the negation of the guard of \<^verbatim>\<open>solve_captcha\<close>: every field is truthy (an array
      always is, a string when it is not empty)\<close>
  "captchaActive c =
     (truthy (challenge c) \<and> images c \<noteq> None \<and> truthy (action c)
      \<and> truthy (submitValue c) \<and> checkboxNames c \<noteq> None)"

fun eachIndex :: "string list \<Rightarrow> int list \<Rightarrow> URLSearchParams \<Rightarrow> URLSearchParams" where
  \<comment> \<open>the loop over \<^verbatim>\<open>indices\<close>, appending the checked boxes to \<^verbatim>\<open>formData\<close>\<close>
  "eachIndex names [] formData = formData"
| "eachIndex names (index # rest) formData =
     eachIndex names rest
       (if index \<ge> 1 \<and> index \<le> int (length names) then
          (let checkboxName = names ! nat (index - 1)
           in if checkboxName \<noteq> [] then append_param checkboxName ''1'' formData
              else formData)
        else formData)"

definition buildFormData :: "captcha_state \<Rightarrow> int list \<Rightarrow> URLSearchParams" where
  "buildFormData c indices =
     eachIndex (case checkboxNames c of None \<Rightarrow> [] | Some names \<Rightarrow> names) indices
       (append_param ''challenge-submit'' (orEmpty (submitValue c)) [])"

definition solve_captcha :: "env \<Rightarrow> int list \<Rightarrow> world \<Rightarrow> tool_result \<times> world" where
  "solve_captcha e indices w =
     (if \<not> captchaActive (captchaState w) then
        (\<lparr>content = ''No CAPTCHA challenge is currently active.'', isError = True\<rparr>, w)
      else
        (let formData = buildFormData (captchaState w) indices
         in case new_URL e (orEmpty (action (captchaState w))) ''https://duckduckgo.com'' of
              Inl msg \<Rightarrow> (\<lparr>content = ''Error solving CAPTCHA: '' @ msg, isError = True\<rparr>, w)
            | Inr actionUrl \<Rightarrow>
                (let (response, w1) =
                       do_fetch e \<lparr>req_method = ''POST'', req_url = actionUrl,
                                   req_headers = formHeaders e,
                                   req_body = Some (serialize formData)\<rparr> w
                 in case response of
                      Rejected msg \<Rightarrow>
                        (\<lparr>content = ''Error solving CAPTCHA: '' @ msg, isError = True\<rparr>, w1)
                    | Response ok status statusText body \<Rightarrow>
                        if \<not> ok then
                          (\<lparr>content = ''Error solving CAPTCHA: '' @ toString status @ '' ''
                                       @ statusText,
                            isError = True\<rparr>, w1)
                        else
                          (case body of
                             Inl msg \<Rightarrow>
                               (\<lparr>content = ''Error solving CAPTCHA: '' @ msg,
                                 isError = True\<rparr>, w1)
                           | Inr html \<Rightarrow>
                               (case parseSearchResults e html w1 of
                                  (Inl msg, w2) \<Rightarrow>
                                    (\<lparr>content = ''Error solving CAPTCHA: '' @ msg,
                                      isError = True\<rparr>, w2)
                                | (Inr data, w2) \<Rightarrow>
                                    (case dataToResult e data
                                            (orEmpty (currentQuery (searchState w2))) w2 of
                                       (Inl msg, w3) \<Rightarrow>
                                         (\<lparr>content = ''Error solving CAPTCHA: '' @ msg,
                                           isError = True\<rparr>, w3)
                                     | (Inr result, w3) \<Rightarrow> (result, w3)))))))"

section \<open>Notions used to state the properties\<close>

text \<open>
  The three handlers end in the same way once the response is there: a rejected fetch, a
  response that is not ok, a body that cannot be read, the parse and the conversion to a
  result. \<open>respond\<close> is that common tail, with the two message prefixes and the query as
  parameters; \<open>formPost\<close> is the POST request the handlers send and \<open>searchBody\<close> the
  body \<^verbatim>\<open>search\<close> builds. Each handler is shown below to be an instance.
\<close>

definition respond :: "string \<Rightarrow> string \<Rightarrow> env \<Rightarrow> (world \<Rightarrow> string) \<Rightarrow> response \<Rightarrow> world
                         \<Rightarrow> tool_result \<times> world" where
  "respond caught failed e queryOf response w1 =
     (case response of
        Rejected msg \<Rightarrow> (\<lparr>content = caught @ msg, isError = True\<rparr>, w1)
      | Response ok status statusText body \<Rightarrow>
          if \<not> ok then
            (\<lparr>content = failed @ toString status @ '' '' @ statusText, isError = True\<rparr>, w1)
          else
            (case body of
               Inl msg \<Rightarrow> (\<lparr>content = caught @ msg, isError = True\<rparr>, w1)
             | Inr html \<Rightarrow>
                 (case parseSearchResults e html w1 of
                    (Inl msg, w2) \<Rightarrow> (\<lparr>content = caught @ msg, isError = True\<rparr>, w2)
                  | (Inr data, w2) \<Rightarrow>
                      (case dataToResult e data (queryOf w2) w2 of
                         (Inl msg, w3) \<Rightarrow> (\<lparr>content = caught @ msg, isError = True\<rparr>, w3)
                       | (Inr result, w3) \<Rightarrow> (result, w3)))))"

definition searchBody :: "string \<Rightarrow> string option \<Rightarrow> string option \<Rightarrow> string" where
  "searchBody query region dateFrame =
     (let kl = (case region of None \<Rightarrow> None | Some r \<Rightarrow> map_of supportedRegions r);
          df = (case dateFrame of None \<Rightarrow> None | Some d \<Rightarrow> map_of supportedDateFrame d);
          p1 = set_param ''q'' query [];
          p2 = (if truthy region \<and> truthy kl then set_param ''kl'' (orEmpty kl) p1 else p1);
          p3 = (if truthy dateFrame \<and> truthy df then set_param ''df'' (orEmpty df) p2 else p2)
      in serialize (set_param ''b'' [] p3))"

definition formPost :: "env \<Rightarrow> string \<Rightarrow> string option \<Rightarrow> request" where
  "formPost e target body =
     \<lparr>req_method = ''POST'', req_url = target, req_headers = formHeaders e, req_body = body\<rparr>"

definition searchEndpoint :: string where
  "searchEndpoint = ''https://html.duckduckgo.com/html/''"

definition noNextPage :: tool_result where
  "noNextPage = \<lparr>content = ''No next page available.'', isError = True\<rparr>"

definition noActiveChallenge :: tool_result where
  "noActiveChallenge = \<lparr>content = ''No CAPTCHA challenge is currently active.'', isError = True\<rparr>"

text \<open>
  The queries of the parser, named: which marker a document carries, the tile images of
  its challenge form and what the parser reads from the form, the result items and the
  inputs of the next-page form, and what the two loops of the results branch compute for
  one element. \<open>imageBuffersOf\<close> is the list of tile buffers whose download succeeded.
\<close>

definition tileSrc :: "node \<Rightarrow> string" where
  "tileSrc elem = orEmpty (attr ''src'' elem)"

definition challengeTiles :: "node list \<Rightarrow> node list" where
  "challengeTiles doc =
     find_below (hasId ''challenge-form'') (hasClass ''anomaly-modal__image'') doc"

definition hasChallengeForm :: "node list \<Rightarrow> bool" where
  "hasChallengeForm doc = (select (hasId ''challenge-form'') doc \<noteq> [])"

definition hasErrorForm :: "node list \<Rightarrow> bool" where
  "hasErrorForm doc = (select (hasId ''error-form'') doc \<noteq> [])"

definition hasSuccessForm :: "node list \<Rightarrow> bool" where
  "hasSuccessForm doc = (select (hasId ''success-form'') doc \<noteq> [])"

definition hasResultsElement :: "node list \<Rightarrow> bool" where
  "hasResultsElement doc = (select (hasClass ''results'') doc \<noteq> [])"


definition challengeInstructions :: "node list \<Rightarrow> string" where
  "challengeInstructions doc =
     textOf (find_below (hasId ''challenge-form'') (hasClass ''anomaly-modal__instructions'') doc)"

definition challengeAction :: "node list \<Rightarrow> string" where
  "challengeAction doc = orEmpty (attrOf (select (hasId ''challenge-form'') doc) ''action'')"

definition challengeSubmitValue :: "node list \<Rightarrow> string" where
  "challengeSubmitValue doc =
     orEmpty (attrOf
       (find_below (hasId ''challenge-form'')
          (\<lambda>n. isTag ''button'' n \<and> hasAttr ''name'' ''challenge-submit'' n) doc)
       ''value'')"

definition checkboxNamesOf :: "node list \<Rightarrow> string list" where
  "checkboxNamesOf tiles =
     map (\<lambda>t. ''image-check_'' @ tileFilename (tileSrc t))
       (filter (\<lambda>t. tileFilename (tileSrc t) \<noteq> []) tiles)"









section \<open>Sample documents, networks and sessions\<close>

text \<open>
  Concrete inputs on which the theorems are exercised. The sample \<open>new_URL\<close> agrees with
  the URL standard on the inputs used here: a path that starts with a slash is appended to
  the origin, and \<^verbatim>\<open>//\<close>, which has no host, is rejected.
\<close>

definition tile :: "string \<Rightarrow> node" where
  "tile src = Element ''img'' [(''class'', ''anomaly-modal__image''), (''src'', src)] []"

definition challengeForm :: "(string \<times> string) list \<Rightarrow> string \<Rightarrow> string list \<Rightarrow> node" where
  "challengeForm attrs instructions srcs =
     Element ''form'' ((''id'', ''challenge-form'') # attrs)
       ([Element ''div'' [(''class'', ''anomaly-modal__instructions'')] [TextNode instructions]]
        @ map tile srcs
        @ [Element ''button'' [(''name'', ''challenge-submit''), (''value'', ''go'')]
             [TextNode ''Submit'']])"

definition successPage :: "node list" where
  "successPage = [Element ''form'' [(''id'', ''success-form'')] []]"

definition sampleLoad :: "string \<Rightarrow> node list" where
  "sampleLoad html = (if html = ''success'' then successPage else [])"

definition sampleEnv :: "(string \<Rightarrow> node list) \<Rightarrow> (request list \<Rightarrow> request \<Rightarrow> response) \<Rightarrow> env" where
  "sampleEnv pages net =
     \<lparr>load = pages,
      new_URL = (\<lambda>input base. if input = ''//'' then Inl ''Invalid URL'' else Inr (base @ input)),
      fetch = net,
      decodeJPEGFromStream =
        (\<lambda>bytes. if bytes = ''jpeg'' then Inr \<lparr>bwidth = 100, bheight = 100, pixels = bytes\<rparr>
                  else Inl ''SOI not found''),
      overlayAsset = Inr \<lparr>bwidth = 768, bheight = 768, pixels = ''overlay''\<rparr>,
      encodePNGToStream = (\<lambda>c. ''png''),
      randomBytesHex = (\<lambda>k. replicate 31 (CHR ''0'') @ toString (k mod 10)),
      port = 40123,
      resolvedLocale = ''en-US''\<rparr>"

definition netDown :: "request list \<Rightarrow> request \<Rightarrow> response" where
  \<comment> \<open>a network that answers every request with status 503\<close>
  "netDown log r = Response False 503 ''Service Unavailable'' (Inr [])"

definition netPage :: "string \<Rightarrow> request list \<Rightarrow> request \<Rightarrow> response" where
  \<comment> \<open>a network that answers every POST with the given page and every GET with a JPEG\<close>
  "netPage html log r =
     (if req_method r = ''GET'' then Response True 200 ''OK'' (Inr ''jpeg'')
      else Response True 200 ''OK'' (Inr html))"

definition freshWorld :: world where
  \<comment> \<open>the state the server starts in\<close>
  "freshWorld =
     \<lparr>searchState = \<lparr>currentQuery = None, currentPage = 1, nextFormData = None\<rparr>,
      captchaState = \<lparr>challenge = None, images = None, action = None, submitValue = None,
                      checkboxNames = None\<rparr>,
      captchaImages = [], requests = [], draws = 0\<rparr>"

definition pagedWorld :: "int \<Rightarrow> string option \<Rightarrow> world" where
  \<comment> \<open>a session on the given page with the given pending token\<close>
  "pagedWorld page token =
     freshWorld\<lparr>searchState :=
       \<lparr>currentQuery = Some ''cats'', currentPage = page, nextFormData = token\<rparr>\<rparr>"

definition nineSrcs :: "string list" where
  "nineSrcs = [''/t/a.jpg'', ''/t/b.jpg'', ''/t/c.jpg'', ''/t/d.jpg'', ''/t/e.jpg'',
               ''/t/f.jpg'', ''/t/g.jpg'', ''/t/h.jpg'', ''/t/i.jpg'']"

definition gappySrcs :: "string list" where
  "gappySrcs = [''/t/a.jpg'', ''/t/b.jpg'', ''/t/c.jpg'', ''/t/d.jpg'', ''/t/e.jpg'',
                ''/t/f.jpg'', ''/t/g.jpg'', ''/t/h.jpg'', ''/t/'']"

definition absolute :: "string list \<Rightarrow> string list" where
  "absolute srcs = map (\<lambda>s. ''https://duckduckgo.com'' @ s) srcs"

definition challengePage :: "node list" where
  "challengePage =
     [Element ''html'' []
        [Element ''body'' []
           [challengeForm [(''action'', ''/anomaly.js'')] ''Select all ducks:'' nineSrcs]]]"

definition gappyChallengePage :: "node list" where
  "gappyChallengePage =
     [challengeForm [(''action'', ''/anomaly.js'')] ''Select all ducks:'' gappySrcs]"

definition badTilePage :: "node list" where
  "badTilePage = [challengeForm [(''action'', ''/anomaly.js'')] ''Select all ducks:'' [''//'']]"

definition blankChallengePage :: "node list" where
  "blankChallengePage = [challengeForm [] ''Select all ducks:'' nineSrcs]"

definition onePage :: "node list \<Rightarrow> string \<Rightarrow> node list" where
  "onePage doc html = doc"

definition challengeDescriptor :: "string option \<Rightarrow> string list \<Rightarrow> string list \<Rightarrow> captcha_state" where
  "challengeDescriptor act imgs names =
     \<lparr>challenge = Some ''Select all ducks:'', images = Some imgs, action = act,
      submitValue = Some ''go'', checkboxNames = Some names\<rparr>"

definition challengedWorld :: world where
  \<comment> \<open>a session on page 4 with a pending token and, as the active challenge, the
      descriptor the parser stores for \<open>challengePage\<close>\<close>
  "challengedWorld =
     (pagedWorld 4 (Some ''q=cats&s=90''))\<lparr>captchaState :=
        challengeDescriptor (Some ''/anomaly.js'') (absolute nineSrcs)
          [''image-check_a'', ''image-check_b'', ''image-check_c'', ''image-check_d'',
           ''image-check_e'', ''image-check_f'', ''image-check_g'', ''image-check_h'',
           ''image-check_i'']\<rparr>"

definition exampleWorld :: world where
  \<comment> \<open>the same session with the checkbox names \<open>f1\<close> to \<open>f9\<close>\<close>
  "exampleWorld =
     (pagedWorld 4 (Some ''q=cats&s=90''))\<lparr>captchaState :=
        challengeDescriptor (Some ''/anomaly.js'') (absolute nineSrcs)
          [''f1'', ''f2'', ''f3'', ''f4'', ''f5'', ''f6'', ''f7'', ''f8'', ''f9'']\<rparr>"








section \<open>The handlers as instances of the common tail\<close>

lemma search_unfold:
  "search e query region dateFrame w0 =
     respond ''Error performing search: '' ''Error fetching search results: '' e (\<lambda>w. query)
       (fst (do_fetch e
          (formPost e ''https://html.duckduckgo.com/html/''
             (Some (searchBody query region dateFrame)))
          (w0\<lparr>searchState :=
                \<lparr>currentQuery = Some query, currentPage = 1, nextFormData = None\<rparr>\<rparr>)))
       (snd (do_fetch e
          (formPost e ''https://html.duckduckgo.com/html/''
             (Some (searchBody query region dateFrame)))
          (w0\<lparr>searchState :=
                \<lparr>currentQuery = Some query, currentPage = 1, nextFormData = None\<rparr>\<rparr>)))"
  by (simp only: search_def respond_def Let_def case_prod_beta searchBody_def formPost_def)

lemma search_respond:
  "search e query region dateFrame w0 =
     respond ''Error performing search: '' ''Error fetching search results: '' e (\<lambda>w. query)
       (fetch e (requests w0) (formPost e searchEndpoint (Some (searchBody query region dateFrame))))
       (w0\<lparr>searchState := \<lparr>currentQuery = Some query, currentPage = 1, nextFormData = None\<rparr>,
            requests := requests w0
              @ [formPost e searchEndpoint (Some (searchBody query region dateFrame))]\<rparr>)"
  by (simp add: search_unfold do_fetch_def searchEndpoint_def)

lemma search_next_guard:
  "\<not> truthy (nextFormData (searchState w)) \<or> currentPage (searchState w) > 5 \<Longrightarrow>
     search_next e w = (noNextPage, w)"
  by (simp only: search_next_def if_True noNextPage_def)

lemma search_next_unfold:
  assumes "truthy (nextFormData (searchState w0))" and "currentPage (searchState w0) \<le> 5"
  shows "search_next e w0 =
     respond ''Error performing search: '' ''Error fetching search results: '' e
       (\<lambda>w. orEmpty (currentQuery (searchState w)))
       (fst (do_fetch e
          (formPost e ''https://html.duckduckgo.com/html/''
             (nextFormData (searchState
                (w0\<lparr>searchState :=
                      (searchState w0)\<lparr>currentPage := currentPage (searchState w0) + 1\<rparr>\<rparr>))))
          ((w0\<lparr>searchState :=
                 (searchState w0)\<lparr>currentPage := currentPage (searchState w0) + 1\<rparr>\<rparr>)
             \<lparr>searchState :=
                (searchState
                   (w0\<lparr>searchState :=
                         (searchState w0)\<lparr>currentPage := currentPage (searchState w0) + 1\<rparr>\<rparr>))
                  \<lparr>nextFormData := None\<rparr>\<rparr>)))
       (snd (do_fetch e
          (formPost e ''https://html.duckduckgo.com/html/''
             (nextFormData (searchState
                (w0\<lparr>searchState :=
                      (searchState w0)\<lparr>currentPage := currentPage (searchState w0) + 1\<rparr>\<rparr>))))
          ((w0\<lparr>searchState :=
                 (searchState w0)\<lparr>currentPage := currentPage (searchState w0) + 1\<rparr>\<rparr>)
             \<lparr>searchState :=
                (searchState
                   (w0\<lparr>searchState :=
                         (searchState w0)\<lparr>currentPage := currentPage (searchState w0) + 1\<rparr>\<rparr>))
                  \<lparr>nextFormData := None\<rparr>\<rparr>)))"
proof -
  from assms
  have g: "\<not> (\<not> truthy (nextFormData (searchState w0)) \<or> currentPage (searchState w0) > 5)"
    by simp
  show ?thesis
    by (simp only: search_next_def g if_False respond_def Let_def case_prod_beta formPost_def)
qed

lemma search_next_respond:
  "truthy (nextFormData (searchState w0)) \<Longrightarrow> currentPage (searchState w0) \<le> 5 \<Longrightarrow>
   search_next e w0 =
     respond ''Error performing search: '' ''Error fetching search results: '' e
       (\<lambda>w. orEmpty (currentQuery (searchState w)))
       (fetch e (requests w0) (formPost e searchEndpoint (nextFormData (searchState w0))))
       (w0\<lparr>searchState := (searchState w0)\<lparr>currentPage := currentPage (searchState w0) + 1,
                                            nextFormData := None\<rparr>,
            requests := requests w0
              @ [formPost e searchEndpoint (nextFormData (searchState w0))]\<rparr>)"
  by (simp add: search_next_unfold do_fetch_def searchEndpoint_def)

lemma solve_captcha_guard:
  "\<not> captchaActive (captchaState w) \<Longrightarrow> solve_captcha e indices w = (noActiveChallenge, w)"
  by (simp only: solve_captcha_def not_False_eq_True if_True noActiveChallenge_def)

lemma solve_captcha_bad_action:
  "captchaActive (captchaState w) \<Longrightarrow>
   new_URL e (orEmpty (action (captchaState w))) ''https://duckduckgo.com'' = Inl msg \<Longrightarrow>
   solve_captcha e indices w = (\<lparr>content = ''Error solving CAPTCHA: '' @ msg, isError = True\<rparr>, w)"
  by (simp only: solve_captcha_def not_True_eq_False if_False Let_def sum.case)

lemma solve_captcha_unfold:
  "captchaActive (captchaState w) \<Longrightarrow>
   new_URL e (orEmpty (action (captchaState w))) ''https://duckduckgo.com'' = Inr actionUrl \<Longrightarrow>
   solve_captcha e indices w =
     respond ''Error solving CAPTCHA: '' ''Error solving CAPTCHA: '' e
       (\<lambda>w. orEmpty (currentQuery (searchState w)))
       (fst (do_fetch e
          (formPost e actionUrl (Some (serialize (buildFormData (captchaState w) indices)))) w))
       (snd (do_fetch e
          (formPost e actionUrl (Some (serialize (buildFormData (captchaState w) indices)))) w))"
  by (simp only: solve_captcha_def not_True_eq_False if_False Let_def sum.case respond_def
                 case_prod_beta formPost_def)

lemma solve_captcha_respond:
  "captchaActive (captchaState w) \<Longrightarrow>
   new_URL e (orEmpty (action (captchaState w))) ''https://duckduckgo.com'' = Inr actionUrl \<Longrightarrow>
   solve_captcha e indices w =
     respond ''Error solving CAPTCHA: '' ''Error solving CAPTCHA: '' e
       (\<lambda>w. orEmpty (currentQuery (searchState w)))
       (fetch e (requests w)
          (formPost e actionUrl (Some (serialize (buildFormData (captchaState w) indices)))))
       (w\<lparr>requests := requests w
              @ [formPost e actionUrl (Some (serialize (buildFormData (captchaState w) indices)))]\<rparr>)"
  by (simp add: solve_captcha_unfold do_fetch_def)

section \<open>What the parser, the converter and the common tail leave untouched\<close>

lemma downloadAll_frame:
  "downloadAll e urls w = (bs, w') \<Longrightarrow>
     searchState w' = searchState w \<and> captchaState w' = captchaState w
     \<and> captchaImages w' = captchaImages w \<and> draws w' = draws w
     \<and> (\<exists>extra. requests w' = requests w @ extra)"
proof (induction urls arbitrary: w bs w')
  case Nil
  then show ?case by simp
next
  case (Cons u us)
  show ?case
  proof (cases "u = []")
    case True
    with Cons.prems obtain bs' where "downloadAll e us w = (bs', w')"
      by (auto split: prod.splits)
    from Cons.IH[OF this] show ?thesis .
  next
    case False
    let ?w1 = "w\<lparr>requests := requests w @ [\<lparr>req_method = ''GET'', req_url = u, req_headers = [], req_body = None\<rparr>]\<rparr>"
    from False Cons.prems obtain bs' where "downloadAll e us ?w1 = (bs', w')"
      by (auto simp: do_fetch_def split: prod.splits)
    from Cons.IH[OF this] show ?thesis by auto
  qed
qed

lemma dataToResult_frame:
  "dataToResult e d q w = (r, w') \<Longrightarrow>
     searchState w' = searchState w \<and> captchaState w' = captchaState w
     \<and> (\<exists>extra. requests w' = requests w @ extra)"
  by (cases d)
     (auto simp: dataToResult_def Let_def split: if_splits sum.splits prod.splits
           dest!: downloadAll_frame)

lemma parseDocument_frame:
  "parseDocument e doc w = (r, w') \<Longrightarrow>
     requests w' = requests w \<and> captchaImages w' = captchaImages w \<and> draws w' = draws w
     \<and> currentQuery (searchState w') = currentQuery (searchState w)
     \<and> currentPage (searchState w') = currentPage (searchState w)
     \<and> ((\<exists>a b c. r = Inr (Captcha a b c)) \<or> captchaState w' = captchaState w)
     \<and> ((\<exists>h rs. r = Inr (Results h rs) \<and> h \<noteq> 0) \<or> searchState w' = searchState w)"
  by (auto simp: parseDocument_def Let_def split: if_splits sum.splits prod.splits)

lemma parseDocument_data:
  "fst (parseDocument e doc w) = fst (parseDocument e doc w')"
  by (auto simp: parseDocument_def Let_def split: if_splits sum.splits prod.splits)

lemma parseSearchResults_data:
  "fst (parseSearchResults e html w) = fst (parseSearchResults e html w')"
  unfolding parseSearchResults_def by (rule parseDocument_data)

lemma respond_parsed:
  "respond caught failed e queryOf resp w1 = (r, w') \<Longrightarrow>
     w' = w1
     \<or> (\<exists>status statusText html d w2.
           resp = Response True status statusText (Inr html)
           \<and> parseSearchResults e html w1 = (d, w2)
           \<and> (case d of
                 Inl msg \<Rightarrow> w' = w2
               | Inr data \<Rightarrow> (\<exists>r'. dataToResult e data (queryOf w2) w2 = (r', w'))))"
  by (auto simp: respond_def split: response.splits if_splits sum.splits prod.splits)

lemma respond_frame:
  assumes "respond caught failed e queryOf resp w1 = (r, w')"
  shows "currentQuery (searchState w') = currentQuery (searchState w1)
     \<and> currentPage (searchState w') = currentPage (searchState w1)
     \<and> (\<exists>extra. requests w' = requests w1 @ extra)
     \<and> (captchaState w' = captchaState w1
         \<or> (\<exists>status statusText html a b c.
               resp = Response True status statusText (Inr html)
               \<and> fst (parseSearchResults e html w1) = Inr (Captcha a b c)))
     \<and> (nextFormData (searchState w') = nextFormData (searchState w1)
         \<or> (\<exists>status statusText html h rs.
               resp = Response True status statusText (Inr html)
               \<and> fst (parseSearchResults e html w1) = Inr (Results h rs) \<and> h \<noteq> 0))"
proof -
  from respond_parsed[OF assms] show ?thesis
  proof
    assume "w' = w1" then show ?thesis by simp
  next
    assume "\<exists>status statusText html d w2.
           resp = Response True status statusText (Inr html)
           \<and> parseSearchResults e html w1 = (d, w2)
           \<and> (case d of
                 Inl msg \<Rightarrow> w' = w2
               | Inr data \<Rightarrow> (\<exists>r'. dataToResult e data (queryOf w2) w2 = (r', w')))"
    then obtain status statusText html d w2 where
      resp: "resp = Response True status statusText (Inr html)" and
      parse: "parseSearchResults e html w1 = (d, w2)" and
      rest: "case d of Inl msg \<Rightarrow> w' = w2
             | Inr data \<Rightarrow> (\<exists>r'. dataToResult e data (queryOf w2) w2 = (r', w'))"
      by blast
    from parse have pf: "requests w2 = requests w1"
      "currentQuery (searchState w2) = currentQuery (searchState w1)"
      "currentPage (searchState w2) = currentPage (searchState w1)"
      "(\<exists>a b c. d = Inr (Captcha a b c)) \<or> captchaState w2 = captchaState w1"
      "(\<exists>h rs. d = Inr (Results h rs) \<and> h \<noteq> 0) \<or> searchState w2 = searchState w1"
      unfolding parseSearchResults_def by (auto dest!: parseDocument_frame)
    have df: "searchState w' = searchState w2 \<and> captchaState w' = captchaState w2
              \<and> (\<exists>extra. requests w' = requests w2 @ extra)"
    proof (cases d)
      case (Inl msg)
      with rest show ?thesis by simp
    next
      case (Inr data)
      with rest obtain r' where "dataToResult e data (queryOf w2) w2 = (r', w')" by auto
      from dataToResult_frame[OF this] show ?thesis .
    qed
    from parse have fstd: "fst (parseSearchResults e html w1) = d" by simp
    show ?thesis
      using pf df resp fstd by auto
  qed
qed

lemmas sample_defs = sampleEnv_def netDown_def netPage_def pagedWorld_def freshWorld_def
  challengedWorld_def exampleWorld_def challengeDescriptor_def

lemmas dom_defs = select_def find_below_def findIn_def hasId_def hasClass_def hasAttr_def
  attrOf_def textOf_def orEmpty_def truthy_def first_def isWhiteSpace_def

lemmas encode_defs = serialize_def formEncode_def encodeByte_def formUnreserved_def hexDigit_def
  append_param_def

lemma parse_successPage:
  "parseSearchResults (sampleEnv sampleLoad net) ''success'' w = (Inr CaptchaSuccess, w)"
  by (simp add: parseSearchResults_def parseDocument_def sampleEnv_def sampleLoad_def
                successPage_def dom_defs)

section \<open>The session after each handler\<close>

lemma search_next_after:
  assumes t: "truthy (nextFormData (searchState w))" and p: "currentPage (searchState w) \<le> 5"
  shows "search_next e w
      = respond ''Error performing search: '' ''Error fetching search results: '' e
          (\<lambda>w. orEmpty (currentQuery (searchState w)))
          (fetch e (requests w) (formPost e searchEndpoint (nextFormData (searchState w))))
          (w\<lparr>searchState := (searchState w)\<lparr>currentPage := currentPage (searchState w) + 1,
                                              nextFormData := None\<rparr>,
             requests := requests w
               @ [formPost e searchEndpoint (nextFormData (searchState w))]\<rparr>)
    \<and> currentPage (searchState (snd (search_next e w))) = currentPage (searchState w) + 1
    \<and> (\<exists>extra. requests (snd (search_next e w))
          = requests w @ formPost e searchEndpoint (nextFormData (searchState w)) # extra)
    \<and> (nextFormData (searchState (snd (search_next e w))) = None
        \<or> (\<exists>status statusText html h rs.
             fetch e (requests w) (formPost e searchEndpoint (nextFormData (searchState w)))
               = Response True status statusText (Inr html)
             \<and> fst (parseSearchResults e html w) = Inr (Results h rs) \<and> h \<noteq> 0))
    \<and> ((\<forall>status statusText html.
           fetch e (requests w) (formPost e searchEndpoint (nextFormData (searchState w)))
             \<noteq> Response True status statusText (Inr html))
        \<longrightarrow> search_next e (snd (search_next e w))
              = (\<lparr>content = ''No next page available.'', isError = True\<rparr>, snd (search_next e w)))"
proof -
  let ?req = "formPost e searchEndpoint (nextFormData (searchState w))"
  let ?w1 = "w\<lparr>searchState := (searchState w)\<lparr>currentPage := currentPage (searchState w) + 1,
                                              nextFormData := None\<rparr>,
               requests := requests w @ [?req]\<rparr>"
  let ?resp = "fetch e (requests w) ?req"
  obtain r w' where out: "search_next e w = (r, w')" by (cases "search_next e w")
  with search_next_respond[OF t p, of e]
  have resp: "respond ''Error performing search: '' ''Error fetching search results: '' e
                (\<lambda>w. orEmpty (currentQuery (searchState w))) ?resp ?w1 = (r, w')"
    by simp
  note fr = respond_frame[OF resp]
  have page: "currentPage (searchState w') = currentPage (searchState w) + 1"
    using fr by simp
  from fr obtain extra where "requests w' = requests ?w1 @ extra" by blast
  then have log: "requests w' = requests w @ ?req # extra" by simp
  have tok: "nextFormData (searchState w') = None
        \<or> (\<exists>status statusText html h rs.
             ?resp = Response True status statusText (Inr html)
             \<and> fst (parseSearchResults e html w) = Inr (Results h rs) \<and> h \<noteq> 0)"
    using fr parseSearchResults_data[of e _ ?w1 w] by auto
  have retry: "search_next e w' = (\<lparr>content = ''No next page available.'', isError = True\<rparr>, w')"
    if "\<forall>status statusText html. ?resp \<noteq> Response True status statusText (Inr html)"
  proof -
    from respond_parsed[OF resp] that have "w' = ?w1" by blast
    then have "\<not> truthy (nextFormData (searchState w'))" by (simp add: truthy_def)
    then show ?thesis using search_next_guard[of w' e] by (simp add: noNextPage_def)
  qed
  from out page log tok retry
  have "currentPage (searchState (snd (search_next e w))) = currentPage (searchState w) + 1
    \<and> (\<exists>extra. requests (snd (search_next e w)) = requests w @ ?req # extra)
    \<and> (nextFormData (searchState (snd (search_next e w))) = None
        \<or> (\<exists>status statusText html h rs.
             ?resp = Response True status statusText (Inr html)
             \<and> fst (parseSearchResults e html w) = Inr (Results h rs) \<and> h \<noteq> 0))
    \<and> ((\<forall>status statusText html. ?resp \<noteq> Response True status statusText (Inr html))
        \<longrightarrow> search_next e (snd (search_next e w))
              = (\<lparr>content = ''No next page available.'', isError = True\<rparr>,
                 snd (search_next e w)))"
    by auto
  with search_next_respond[OF t p, of e] show ?thesis by blast
qed

lemma search_after:
  "search e q r d (w\<lparr>searchState := s\<rparr>) = search e q r d w
   \<and> currentQuery (searchState (snd (search e q r d w))) = Some q
   \<and> currentPage (searchState (snd (search e q r d w))) = 1
   \<and> (nextFormData (searchState (snd (search e q r d w))) = None
      \<or> (\<exists>status statusText html h rs.
            fetch e (requests w) (formPost e searchEndpoint (Some (searchBody q r d)))
              = Response True status statusText (Inr html)
            \<and> fst (parseSearchResults e html w) = Inr (Results h rs) \<and> h \<noteq> 0))
   \<and> (\<not> truthy (nextFormData (searchState (snd (search e q r d w))))
      \<longrightarrow> search_next e (snd (search e q r d w))
            = (\<lparr>content = ''No next page available.'', isError = True\<rparr>,
               snd (search e q r d w)))
   \<and> (captchaState (snd (search e q r d w)) = captchaState w
      \<or> (\<exists>status statusText html a b c.
            fetch e (requests w) (formPost e searchEndpoint (Some (searchBody q r d)))
              = Response True status statusText (Inr html)
            \<and> fst (parseSearchResults e html w) = Inr (Captcha a b c)))"
proof -
  let ?req = "formPost e searchEndpoint (Some (searchBody q r d))"
  let ?w1 = "w\<lparr>searchState := \<lparr>currentQuery = Some q, currentPage = 1, nextFormData = None\<rparr>,
               requests := requests w @ [?req]\<rparr>"
  let ?resp = "fetch e (requests w) ?req"
  have indep: "search e q r d (w\<lparr>searchState := s\<rparr>) = search e q r d w"
    by (simp add: search_respond)
  obtain res w' where out: "search e q r d w = (res, w')" by (cases "search e q r d w")
  with search_respond[of e q r d w]
  have resp: "respond ''Error performing search: '' ''Error fetching search results: '' e
                (\<lambda>w. q) ?resp ?w1 = (res, w')"
    by simp
  note fr = respond_frame[OF resp]
  have a: "currentQuery (searchState w') = Some q" "currentPage (searchState w') = 1"
    using fr by simp_all
  have tok: "nextFormData (searchState w') = None
        \<or> (\<exists>status statusText html h rs.
             ?resp = Response True status statusText (Inr html)
             \<and> fst (parseSearchResults e html w) = Inr (Results h rs) \<and> h \<noteq> 0)"
    using fr parseSearchResults_data[of e _ ?w1 w] by auto
  have cap: "captchaState w' = captchaState w
        \<or> (\<exists>status statusText html a b c.
             ?resp = Response True status statusText (Inr html)
             \<and> fst (parseSearchResults e html w) = Inr (Captcha a b c))"
    using fr parseSearchResults_data[of e _ ?w1 w] by auto
  have nxt: "\<not> truthy (nextFormData (searchState w'))
      \<longrightarrow> search_next e w' = (\<lparr>content = ''No next page available.'', isError = True\<rparr>, w')"
    using search_next_guard[of w' e] by (simp add: noNextPage_def)
  show ?thesis using indep out a tok cap nxt by simp
qed

lemma solve_captcha_keeps:
  "captchaState (snd (solve_captcha e indices w)) = captchaState w
   \<or> (\<exists>actionUrl status statusText html a b c.
         fetch e (requests w)
           (formPost e actionUrl (Some (serialize (buildFormData (captchaState w) indices))))
           = Response True status statusText (Inr html)
         \<and> fst (parseSearchResults e html w) = Inr (Captcha a b c))"
proof (cases "captchaActive (captchaState w)")
  case False
  then show ?thesis by (simp add: solve_captcha_guard)
next
  case True
  show ?thesis
  proof (cases "new_URL e (orEmpty (action (captchaState w))) ''https://duckduckgo.com''")
    case (Inl msg)
    with True show ?thesis by (simp add: solve_captcha_bad_action)
  next
    case (Inr actionUrl)
    let ?req = "formPost e actionUrl (Some (serialize (buildFormData (captchaState w) indices)))"
    let ?w1 = "w\<lparr>requests := requests w @ [?req]\<rparr>"
    obtain r w' where out: "solve_captcha e indices w = (r, w')"
      by (cases "solve_captcha e indices w")
    with solve_captcha_respond[OF True Inr, of indices]
    have "respond ''Error solving CAPTCHA: '' ''Error solving CAPTCHA: '' e
            (\<lambda>w. orEmpty (currentQuery (searchState w))) (fetch e (requests w) ?req) ?w1 = (r, w')"
      by simp
    from respond_frame[OF this] parseSearchResults_data[of e _ ?w1 w] out
    show ?thesis by auto
  qed
qed

lemma search_down_challenged:
  "search (sampleEnv sampleLoad netDown) ''dogs'' None None challengedWorld
     = (\<lparr>content = ''Error fetching search results: 503 Service Unavailable'', isError = True\<rparr>,
        challengedWorld\<lparr>searchState :=
            \<lparr>currentQuery = Some ''dogs'', currentPage = 1, nextFormData = None\<rparr>,
          requests := [formPost (sampleEnv sampleLoad netDown) searchEndpoint
                         (Some (searchBody ''dogs'' None None))]\<rparr>)"
  by (simp add: search_respond respond_def sample_defs toString_def digitChar_def)

section \<open>The form a solve submits\<close>

lemma eachIndex_eq:
  "eachIndex names indices formData
     = formData @ map (\<lambda>i. (names ! nat (i - 1), ''1''))
         (filter (\<lambda>i. 1 \<le> i \<and> i \<le> int (length names) \<and> names ! nat (i - 1) \<noteq> []) indices)"
  by (induction indices arbitrary: formData) (simp_all add: append_param_def Let_def)

lemma in_range_nonempty:
  assumes "\<forall>n \<in> set names. n \<noteq> []" and "1 \<le> i" and "i \<le> int (length names)"
  shows "names ! nat (i - 1) \<noteq> []"
proof -
  from assms(2,3) have "nat (i - 1) < length names" by linarith
  then have "names ! nat (i - 1) \<in> set names" by simp
  with assms(1) show ?thesis by blast
qed

lemma buildFormData_eq:
  assumes "checkboxNames c = Some names" and "\<forall>n \<in> set names. n \<noteq> []"
  shows "buildFormData c indices
     = (''challenge-submit'', orEmpty (submitValue c))
       # map (\<lambda>i. (names ! nat (i - 1), ''1''))
           (filter (\<lambda>i. 1 \<le> i \<and> i \<le> int (length names)) indices)"
proof -
  have "filter (\<lambda>i. 1 \<le> i \<and> i \<le> int (length names) \<and> names ! nat (i - 1) \<noteq> []) indices
        = filter (\<lambda>i. 1 \<le> i \<and> i \<le> int (length names)) indices"
    using in_range_nonempty[OF assms(2)] by (intro filter_cong) auto
  then show ?thesis
    by (simp add: buildFormData_def assms(1) eachIndex_eq append_param_def)
qed

lemma buildFormData_ignores:
  assumes "checkboxNames c = Some names"
  shows "buildFormData c (filter (\<lambda>i. 1 \<le> i \<and> i \<le> int (length names)) indices)
           = buildFormData c indices"
proof -
  have "filter (\<lambda>i. 1 \<le> i \<and> i \<le> int (length names) \<and> names ! nat (i - 1) \<noteq> [])
          (filter (\<lambda>i. 1 \<le> i \<and> i \<le> int (length names)) indices)
        = filter (\<lambda>i. 1 \<le> i \<and> i \<le> int (length names) \<and> names ! nat (i - 1) \<noteq> []) indices"
    by (simp add: conj_commute conj_left_commute cong: conj_cong)
  then show ?thesis by (simp add: buildFormData_def assms eachIndex_eq)
qed

lemma solve_captcha_form_cong:
  "buildFormData (captchaState w) indices = buildFormData (captchaState w) indices' \<Longrightarrow>
   solve_captcha e indices w = solve_captcha e indices' w"
  by (simp only: solve_captcha_def Let_def)

lemma solve_captcha_request:
  assumes act: "captchaActive (captchaState w)"
    and url: "new_URL e (orEmpty (action (captchaState w))) ''https://duckduckgo.com'' = Inr actionUrl"
  shows "\<exists>extra. requests (snd (solve_captcha e indices w))
           = requests w
             @ formPost e actionUrl (Some (serialize (buildFormData (captchaState w) indices)))
             # extra"
proof -
  let ?req = "formPost e actionUrl (Some (serialize (buildFormData (captchaState w) indices)))"
  obtain r w' where out: "solve_captcha e indices w = (r, w')"
    by (cases "solve_captcha e indices w")
  with solve_captcha_respond[OF act url, of indices]
  have "respond ''Error solving CAPTCHA: '' ''Error solving CAPTCHA: '' e
          (\<lambda>w. orEmpty (currentQuery (searchState w))) (fetch e (requests w) ?req)
          (w\<lparr>requests := requests w @ [?req]\<rparr>) = (r, w')"
    by simp
  from respond_frame[OF this] out show ?thesis by auto
qed

lemma solve_captcha_form:
  assumes act: "captchaActive (captchaState w)"
    and names: "checkboxNames (captchaState w) = Some names"
    and ne: "\<forall>n \<in> set names. n \<noteq> []"
  shows "buildFormData (captchaState w) indices
           = (''challenge-submit'', orEmpty (submitValue (captchaState w)))
             # map (\<lambda>i. (names ! nat (i - 1), ''1''))
                 (filter (\<lambda>i. 1 \<le> i \<and> i \<le> int (length names)) indices)
    \<and> solve_captcha e indices w
        = solve_captcha e (filter (\<lambda>i. 1 \<le> i \<and> i \<le> int (length names)) indices) w
    \<and> (\<forall>actionUrl.
          new_URL e (orEmpty (action (captchaState w))) ''https://duckduckgo.com'' = Inr actionUrl
          \<longrightarrow> (\<exists>extra. requests (snd (solve_captcha e indices w))
                 = requests w
                   @ formPost e actionUrl
                       (Some (serialize (buildFormData (captchaState w) indices)))
                   # extra))"
  using buildFormData_eq[OF names ne, of indices]
        solve_captcha_form_cong[OF buildFormData_ignores[OF names, of indices, symmetric], of e]
        solve_captcha_request[OF act, of e _ indices]
  by blast

section \<open>The branches of the parser\<close>

lemma eachTile_Inr:
  "eachTile e tiles (imgs, names) = Inr (imgs', names') \<Longrightarrow>
     (\<exists>hrefs. imgs' = imgs @ hrefs
        \<and> map (\<lambda>t. new_URL e (tileSrc t) ''https://duckduckgo.com'') tiles = map Inr hrefs)
     \<and> names' = names @ map (\<lambda>t. ''image-check_'' @ tileFilename (tileSrc t))
                          (filter (\<lambda>t. tileFilename (tileSrc t) \<noteq> []) tiles)"
proof (induction tiles arbitrary: imgs names)
  case Nil
  then show ?case by simp
next
  case (Cons t ts)
  from Cons.prems obtain href where
    h: "new_URL e (tileSrc t) ''https://duckduckgo.com'' = Inr href"
    by (auto simp: tileSrc_def Let_def split: sum.splits)
  let ?names1 = "if tileFilename (tileSrc t) \<noteq> []
                 then names @ [''image-check_'' @ tileFilename (tileSrc t)] else names"
  from Cons.prems h have "eachTile e ts (imgs @ [href], ?names1) = Inr (imgs', names')"
    by (simp only: eachTile.simps tileSrc_def Let_def sum.case)
  from Cons.IH[OF this] obtain hrefs where
    a: "imgs' = (imgs @ [href]) @ hrefs"
       "map (\<lambda>t. new_URL e (tileSrc t) ''https://duckduckgo.com'') ts = map Inr hrefs"
       "names' = ?names1 @ map (\<lambda>t. ''image-check_'' @ tileFilename (tileSrc t))
                          (filter (\<lambda>t. tileFilename (tileSrc t) \<noteq> []) ts)"
    by blast
  have "imgs' = imgs @ (href # hrefs)
        \<and> map (\<lambda>t. new_URL e (tileSrc t) ''https://duckduckgo.com'') (t # ts)
            = map Inr (href # hrefs)"
    using a h by simp
  moreover have "names' = names @ map (\<lambda>t. ''image-check_'' @ tileFilename (tileSrc t))
                          (filter (\<lambda>t. tileFilename (tileSrc t) \<noteq> []) (t # ts))"
    using a(3) by simp
  ultimately show ?case by blast
qed



lemma parse_challenge:
  assumes "hasChallengeForm doc"
  shows "parseDocument e doc w =
     (case eachTile e (challengeTiles doc) ([], []) of
        Inl msg \<Rightarrow> (Inl msg, w)
      | Inr (images', checkboxNames') \<Rightarrow>
          (Inr (Captcha ''Search blocked by CAPTCHA challenge.''
                  (textOf (find_below (hasId ''challenge-form'')
                             (hasClass ''anomaly-modal__instructions'') doc))
                  images'),
           w\<lparr>captchaState :=
                \<lparr>challenge = Some (textOf (find_below (hasId ''challenge-form'')
                                             (hasClass ''anomaly-modal__instructions'') doc)),
                 images = Some images',
                 action = Some (orEmpty (attrOf (select (hasId ''challenge-form'') doc) ''action'')),
                 submitValue =
                   Some (orEmpty (attrOf
                     (find_below (hasId ''challenge-form'')
                        (\<lambda>n. isTag ''button'' n \<and> hasAttr ''name'' ''challenge-submit'' n) doc)
                     ''value'')),
                 checkboxNames = Some checkboxNames'\<rparr>\<rparr>))"
  using assms
  by (simp add: parseDocument_def hasChallengeForm_def challengeTiles_def Let_def
           split: sum.splits prod.splits)

lemma parse_failed:
  assumes "\<not> hasChallengeForm doc" and "hasErrorForm doc"
  shows "parseDocument e doc w =
     (Inr (CaptchaFailed
             (trim (textOf (first (find_below (hasId ''error-form'')
                                     (hasClass ''anomaly-modal__error-instructions'') doc))))
             (orEmpty (attrOf (select (hasId ''error-form'') doc) ''action''))), w)"
  using assms by (simp add: parseDocument_def hasChallengeForm_def hasErrorForm_def Let_def)

lemma parse_success:
  assumes "\<not> hasChallengeForm doc" and "\<not> hasErrorForm doc" and "hasSuccessForm doc"
  shows "parseDocument e doc w = (Inr CaptchaSuccess, w)"
  using assms
  by (simp add: parseDocument_def hasChallengeForm_def hasErrorForm_def hasSuccessForm_def Let_def)

lemma parse_unknown:
  assumes "\<not> hasChallengeForm doc" and "\<not> hasErrorForm doc" and "\<not> hasSuccessForm doc"
    and "\<not> hasResultsElement doc"
  shows "parseDocument e doc w = (Inr Unknown, w)"
  using assms
  by (simp add: parseDocument_def hasChallengeForm_def hasErrorForm_def hasSuccessForm_def
                hasResultsElement_def Let_def)

lemma parse_results:
  assumes "\<not> hasChallengeForm doc" and "\<not> hasErrorForm doc" and "\<not> hasSuccessForm doc"
    and "hasResultsElement doc"
  shows "parseDocument e doc w =
     (Inr (Results (length (select isNextForm doc))
             (fold eachResult (select (hasClass ''result'') doc) [])),
      if select isNextForm doc = [] then w
      else w\<lparr>searchState := (searchState w)\<lparr>nextFormData :=
                Some (serialize (fold eachInput (find_below isNextForm (isTag ''input'') doc) []))\<rparr>\<rparr>)"
  using assms
  by (simp add: parseDocument_def hasChallengeForm_def hasErrorForm_def hasSuccessForm_def
                hasResultsElement_def Let_def)

lemma parse_challenge_Inr:
  assumes "parseDocument e doc w = (Inr (Captcha err ch imgs), w')"
  shows "hasChallengeForm doc
    \<and> err = ''Search blocked by CAPTCHA challenge.''
    \<and> ch = challengeInstructions doc
    \<and> map (\<lambda>t. new_URL e (tileSrc t) ''https://duckduckgo.com'') (challengeTiles doc) = map Inr imgs
    \<and> w' = w\<lparr>captchaState :=
               \<lparr>challenge = Some (challengeInstructions doc), images = Some imgs,
                action = Some (challengeAction doc),
                submitValue = Some (challengeSubmitValue doc),
                checkboxNames = Some (checkboxNamesOf (challengeTiles doc))\<rparr>\<rparr>"
proof -
  have c: "hasChallengeForm doc"
  proof (rule ccontr)
    assume n: "\<not> hasChallengeForm doc"
    show False
    proof (cases "hasErrorForm doc")
      case True
      from parse_failed[OF n True, of e w] assms show False by simp
    next
      case ne: False
      show False
      proof (cases "hasSuccessForm doc")
        case True
        from parse_success[OF n ne True, of e w] assms show False by simp
      next
        case ns: False
        show False
        proof (cases "hasResultsElement doc")
          case True
          from parse_results[OF n ne ns True, of e w] assms show False by simp
        next
          case False
          from parse_unknown[OF n ne ns False, of e w] assms show False by simp
        qed
      qed
    qed
  qed
  from parse_challenge[OF c, of e w] assms
  obtain names where
    et: "eachTile e (challengeTiles doc) ([], []) = Inr (imgs, names)" and
    rest: "err = ''Search blocked by CAPTCHA challenge.''"
          "ch = challengeInstructions doc"
          "w' = w\<lparr>captchaState :=
               \<lparr>challenge = Some (challengeInstructions doc), images = Some imgs,
                action = Some (challengeAction doc),
                submitValue = Some (challengeSubmitValue doc),
                checkboxNames = Some names\<rparr>\<rparr>"
    by (auto simp: challengeInstructions_def challengeAction_def challengeSubmitValue_def
             split: sum.splits prod.splits)
  from eachTile_Inr[OF et] have
    "map (\<lambda>t. new_URL e (tileSrc t) ''https://duckduckgo.com'') (challengeTiles doc) = map Inr imgs"
    "names = checkboxNamesOf (challengeTiles doc)"
    by (auto simp: checkboxNamesOf_def)
  with c rest show ?thesis by simp
qed



lemma checkboxNamesOf_nonempty: "\<forall>n \<in> set (checkboxNamesOf tiles). n \<noteq> []"
  by (auto simp: checkboxNamesOf_def)


lemma empty_field_inactive:
  assumes parse: "parseDocument e doc w0 = (Inr (Captcha err ch imgs), w)"
    and empty: "challengeInstructions doc = [] \<or> challengeAction doc = []
                \<or> challengeSubmitValue doc = []"
  shows "challenge (captchaState w) = Some (challengeInstructions doc)
    \<and> action (captchaState w) = Some (challengeAction doc)
    \<and> submitValue (captchaState w) = Some (challengeSubmitValue doc)
    \<and> images (captchaState w) = Some imgs
    \<and> checkboxNames (captchaState w) \<noteq> None
    \<and> (\<forall>e' indices w2. captchaState w2 = captchaState w \<longrightarrow>
          solve_captcha e' indices w2
            = (\<lparr>content = ''No CAPTCHA challenge is currently active.'', isError = True\<rparr>, w2))"
proof -
  note p = parse_challenge_Inr[OF parse]
  from p have st: "challenge (captchaState w) = Some (challengeInstructions doc)"
    "action (captchaState w) = Some (challengeAction doc)"
    "submitValue (captchaState w) = Some (challengeSubmitValue doc)"
    "images (captchaState w) = Some imgs"
    "checkboxNames (captchaState w) \<noteq> None"
    by simp_all
  from st empty have "\<not> captchaActive (captchaState w)"
    by (auto simp: captchaActive_def truthy_def)
  then have "solve_captcha e' indices w2 = (noActiveChallenge, w2)"
    if "captchaState w2 = captchaState w" for e' indices w2
    using that solve_captcha_guard[of w2 e' indices] by simp
  with st show ?thesis by (simp add: noActiveChallenge_def)
qed

section \<open>Results and the token\<close>









section \<open>The compositor\<close>









section \<open>The parser and the network on the sample inputs\<close>

lemmas page_defs = challengePage_def gappyChallengePage_def badTilePage_def blankChallengePage_def
  challengeForm_def tile_def nineSrcs_def gappySrcs_def absolute_def

lemmas query_defs = hasChallengeForm_def hasErrorForm_def hasSuccessForm_def hasResultsElement_def
  challengeTiles_def challengeInstructions_def challengeAction_def challengeSubmitValue_def
  tileSrc_def

lemmas tile_defs = tileFilename_def split_on_def pop_def

lemma parse_challengePage:
  "parseDocument (sampleEnv pages net) challengePage w
     = (Inr (Captcha ''Search blocked by CAPTCHA challenge.'' ''Select all ducks:''
               (absolute nineSrcs)),
        w\<lparr>captchaState := challengeDescriptor (Some ''/anomaly.js'') (absolute nineSrcs)
             [''image-check_a'', ''image-check_b'', ''image-check_c'', ''image-check_d'',
              ''image-check_e'', ''image-check_f'', ''image-check_g'', ''image-check_h'',
              ''image-check_i'']\<rparr>)"
  by (simp add: parseDocument_def page_defs dom_defs tile_defs sampleEnv_def Let_def
                challengeDescriptor_def)

lemma challengedWorld_descriptor:
  "captchaState challengedWorld
     = captchaState (snd (parseDocument (sampleEnv pages net) challengePage w))"
  by (simp add: parse_challengePage challengedWorld_def)



lemma parse_blankChallengePage:
  "parseDocument (sampleEnv pages net) blankChallengePage w
     = (Inr (Captcha ''Search blocked by CAPTCHA challenge.'' ''Select all ducks:''
               (absolute nineSrcs)),
        w\<lparr>captchaState := challengeDescriptor (Some []) (absolute nineSrcs)
             [''image-check_a'', ''image-check_b'', ''image-check_c'', ''image-check_d'',
              ''image-check_e'', ''image-check_f'', ''image-check_g'', ''image-check_h'',
              ''image-check_i'']\<rparr>)"
  by (simp add: parseDocument_def page_defs dom_defs tile_defs sampleEnv_def Let_def
                challengeDescriptor_def)













section \<open>Pagination guard\<close>

text \<open>
  C4. Whenever \<^verbatim>\<open>search_next\<close> is called with no pending token (the token is \<^verbatim>\<open>null\<close> or
  the empty string), or with the page number beyond the cap of 5, it returns the error
  result "No next page available." and leaves the whole world as it was: the session is
  unchanged and the log of network requests has not grown, so no request was issued.
\<close>

theorem search_next_exhausted:
  "\<not> truthy (nextFormData (searchState w)) \<or> currentPage (searchState w) > 5 \<Longrightarrow>
     search_next e w = (\<lparr>content = ''No next page available.'', isError = True\<rparr>, w)"
  using search_next_guard [of w e] by (simp add: noNextPage_def)

theorem search_next_exhausted_witness:
  "search_next (sampleEnv sampleLoad netDown) (pagedWorld 1 None)
     = (\<lparr>content = ''No next page available.'', isError = True\<rparr>, pagedWorld 1 None)
   \<and> search_next (sampleEnv sampleLoad netDown) (pagedWorld 6 (Some ''q=cats&s=90''))
     = (\<lparr>content = ''No next page available.'', isError = True\<rparr>,
        pagedWorld 6 (Some ''q=cats&s=90''))
   \<and> requests (snd (search_next (sampleEnv sampleLoad netDown) (pagedWorld 1 None))) = []"
  using search_next_exhausted [of "pagedWorld 1 None" "sampleEnv sampleLoad netDown"]
        search_next_exhausted [of "pagedWorld 6 (Some ''q=cats&s=90'')"
                                  "sampleEnv sampleLoad netDown"]
  by (simp add: pagedWorld_def freshWorld_def truthy_def)

section \<open>Consuming the token\<close>

text \<open>
  C5. On every \<^verbatim>\<open>search_next\<close> call that passes the guard (a non-empty pending token and a
  page number of at most 5), for every behaviour of the network and of the parser: the
  response is handled in a world in which the token is already \<^verbatim>\<open>null\<close>, the page number
  already incremented and the request logged, so the token is cleared before the request
  is issued; the page number after the call is the old one plus one; the first request the call
  issues is the POST whose body is the old token; the token left in the session is
  \<^verbatim>\<open>null\<close> unless the response was read and parsed as a results page with a next-page
  form (which stores that page's own token); and when the request does not come back as
  an ok response with a readable body, calling \<^verbatim>\<open>search_next\<close> again fails with
  "No next page available." and issues no request, so the stale token cannot be retried.
\<close>

theorem search_next_consumes_token:
  assumes "truthy (nextFormData (searchState w))" and "currentPage (searchState w) \<le> 5"
  shows "search_next e w
      = respond ''Error performing search: '' ''Error fetching search results: '' e
          (\<lambda>w. orEmpty (currentQuery (searchState w)))
          (fetch e (requests w) (formPost e searchEndpoint (nextFormData (searchState w))))
          (w\<lparr>searchState := (searchState w)\<lparr>currentPage := currentPage (searchState w) + 1,
                                              nextFormData := None\<rparr>,
             requests := requests w
               @ [formPost e searchEndpoint (nextFormData (searchState w))]\<rparr>)
    \<and> currentPage (searchState (snd (search_next e w))) = currentPage (searchState w) + 1
    \<and> (\<exists>extra. requests (snd (search_next e w))
          = requests w @ formPost e searchEndpoint (nextFormData (searchState w)) # extra)
    \<and> (nextFormData (searchState (snd (search_next e w))) = None
        \<or> (\<exists>status statusText html h rs.
             fetch e (requests w) (formPost e searchEndpoint (nextFormData (searchState w)))
               = Response True status statusText (Inr html)
             \<and> fst (parseSearchResults e html w) = Inr (Results h rs) \<and> h \<noteq> 0))
    \<and> ((\<forall>status statusText html.
           fetch e (requests w) (formPost e searchEndpoint (nextFormData (searchState w)))
             \<noteq> Response True status statusText (Inr html))
        \<longrightarrow> search_next e (snd (search_next e w))
              = (\<lparr>content = ''No next page available.'', isError = True\<rparr>, snd (search_next e w)))"
  using search_next_after [OF assms] .

theorem search_next_consumes_token_witness:
  "truthy (nextFormData (searchState (pagedWorld 4 (Some ''q=cats&s=90''))))
   \<and> currentPage (searchState (pagedWorld 4 (Some ''q=cats&s=90''))) \<le> 5
   \<and> currentPage (searchState (snd (search_next (sampleEnv sampleLoad netDown)
                                       (pagedWorld 4 (Some ''q=cats&s=90''))))) = 5
   \<and> nextFormData (searchState (snd (search_next (sampleEnv sampleLoad netDown)
                                       (pagedWorld 4 (Some ''q=cats&s=90''))))) = None
   \<and> search_next (sampleEnv sampleLoad netDown)
        (snd (search_next (sampleEnv sampleLoad netDown) (pagedWorld 4 (Some ''q=cats&s=90''))))
      = (\<lparr>content = ''No next page available.'', isError = True\<rparr>,
         snd (search_next (sampleEnv sampleLoad netDown) (pagedWorld 4 (Some ''q=cats&s=90''))))"
proof -
  let ?e = "sampleEnv sampleLoad netDown"
  let ?w = "pagedWorld 4 (Some ''q=cats&s=90'')"
  have h1: "truthy (nextFormData (searchState ?w))"
    by (simp add: pagedWorld_def truthy_def)
  have h2: "currentPage (searchState ?w) \<le> 5"
    by (simp add: pagedWorld_def)
  have net: "fetch ?e (requests ?w) (formPost ?e searchEndpoint (nextFormData (searchState ?w)))
               = Response False 503 ''Service Unavailable'' (Inr [])"
    by (simp add: sampleEnv_def netDown_def)
  note t = search_next_consumes_token [OF h1 h2, of ?e]
  from t have "currentPage (searchState (snd (search_next ?e ?w)))
                 = currentPage (searchState ?w) + 1"
    by blast
  then have page: "currentPage (searchState (snd (search_next ?e ?w))) = 5"
    by (simp add: pagedWorld_def)
  from t net have tok: "nextFormData (searchState (snd (search_next ?e ?w))) = None"
    by auto
  from t net have retry: "search_next ?e (snd (search_next ?e ?w))
      = (\<lparr>content = ''No next page available.'', isError = True\<rparr>, snd (search_next ?e ?w))"
    by auto
  from h1 h2 page tok retry show ?thesis by blast
qed

section \<open>What a new search resets\<close>

text \<open>
  C1, as stated, fails: \<^verbatim>\<open>search\<close> assigns a fresh \<^verbatim>\<open>searchState\<close> and nothing else, so an
  active challenge survives it. In the session below (page 4, a pending token, and as
  active challenge the descriptor the parser stores for a challenge page of nine tiles,
  \<open>challengedWorld_descriptor\<close>) the search request is answered with status 503; afterwards the
  challenge descriptor is the one from before the search, and \<^verbatim>\<open>solve_captcha([3, 7])\<close>
  does not report "No CAPTCHA challenge is currently active." but posts the old
  descriptor's form to the old action URL.
\<close>

theorem search_keeps_challenge_counterexample:
  "captchaState (snd (search (sampleEnv sampleLoad netDown) ''dogs'' None None challengedWorld))
     = captchaState challengedWorld
   \<and> fst (solve_captcha (sampleEnv sampleLoad netDown) [3, 7]
            (snd (search (sampleEnv sampleLoad netDown) ''dogs'' None None challengedWorld)))
     = \<lparr>content = ''Error solving CAPTCHA: 503 Service Unavailable'', isError = True\<rparr>
   \<and> map req_url (requests (snd (solve_captcha (sampleEnv sampleLoad netDown) [3, 7]
            (snd (search (sampleEnv sampleLoad netDown) ''dogs'' None None challengedWorld)))))
     = [''https://html.duckduckgo.com/html/'', ''https://duckduckgo.com/anomaly.js'']"
proof -
  let ?e = "sampleEnv sampleLoad netDown"
  let ?w1 = "snd (search ?e ''dogs'' None None challengedWorld)"
  note s = search_down_challenged
  have act: "captchaActive (captchaState ?w1)"
    by (simp only: s snd_conv) (simp add: captchaActive_def truthy_def sample_defs)
  have url: "new_URL ?e (orEmpty (action (captchaState ?w1))) ''https://duckduckgo.com''
               = Inr ''https://duckduckgo.com/anomaly.js''"
    by (simp only: s snd_conv) (simp add: orEmpty_def sample_defs)
  show ?thesis
    apply (simp only: solve_captcha_respond[OF act url])
    apply (simp only: s snd_conv fst_conv)
    apply (simp add: respond_def sample_defs toString_def digitChar_def formPost_def
                     searchEndpoint_def)
    done
qed

text \<open>
  C1, amended. For every session state, \<^verbatim>\<open>search(query, \<dots>)\<close> resets the session to the
  fresh query with page number 1 and discards the prior pending token: the result and
  the world after the call do not depend on the session before it; the token after the
  call is \<^verbatim>\<open>null\<close> unless the response was parsed as a results page with a next-page form;
  and while no token is there, \<^verbatim>\<open>search_next\<close> fails with "No next page available." and
  issues no request. The challenge descriptor is not reset: it is the one from before
  the call unless the response itself is parsed as a challenge page.
\<close>

theorem search_resets_session:
  "search e q r d (w\<lparr>searchState := s\<rparr>) = search e q r d w
   \<and> currentQuery (searchState (snd (search e q r d w))) = Some q
   \<and> currentPage (searchState (snd (search e q r d w))) = 1
   \<and> (nextFormData (searchState (snd (search e q r d w))) = None
      \<or> (\<exists>status statusText html h rs.
            fetch e (requests w) (formPost e searchEndpoint (Some (searchBody q r d)))
              = Response True status statusText (Inr html)
            \<and> fst (parseSearchResults e html w) = Inr (Results h rs) \<and> h \<noteq> 0))
   \<and> (\<not> truthy (nextFormData (searchState (snd (search e q r d w))))
      \<longrightarrow> search_next e (snd (search e q r d w))
            = (\<lparr>content = ''No next page available.'', isError = True\<rparr>,
               snd (search e q r d w)))
   \<and> (captchaState (snd (search e q r d w)) = captchaState w
      \<or> (\<exists>status statusText html a b c.
            fetch e (requests w) (formPost e searchEndpoint (Some (searchBody q r d)))
              = Response True status statusText (Inr html)
            \<and> fst (parseSearchResults e html w) = Inr (Captcha a b c)))"
  using search_after [of e q r d s w] .

theorem search_resets_session_witness:
  "search (sampleEnv sampleLoad netDown) ''dogs'' None None
       (challengedWorld\<lparr>searchState := searchState freshWorld\<rparr>)
     = search (sampleEnv sampleLoad netDown) ''dogs'' None None challengedWorld
   \<and> currentPage (searchState
        (snd (search (sampleEnv sampleLoad netDown) ''dogs'' None None challengedWorld))) = 1
   \<and> \<not> truthy (nextFormData (searchState
        (snd (search (sampleEnv sampleLoad netDown) ''dogs'' None None challengedWorld))))
   \<and> search_next (sampleEnv sampleLoad netDown)
        (snd (search (sampleEnv sampleLoad netDown) ''dogs'' None None challengedWorld))
      = (\<lparr>content = ''No next page available.'', isError = True\<rparr>,
         snd (search (sampleEnv sampleLoad netDown) ''dogs'' None None challengedWorld))"
proof -
  have "\<not> truthy (nextFormData (searchState
          (snd (search (sampleEnv sampleLoad netDown) ''dogs'' None None challengedWorld))))"
    by (simp only: search_down_challenged snd_conv) (simp add: truthy_def)
  with search_resets_session
         [of "sampleEnv sampleLoad netDown" "''dogs''" None None "searchState freshWorld"
             challengedWorld]
  show ?thesis by simp
qed

section \<open>The descriptor after a solve\<close>

text \<open>
  C2. The claim is that the prior challenge descriptor is discarded once
  \<^verbatim>\<open>solve_captcha\<close> completes. The handler carries the comment "Reset CAPTCHA state" after
  the response check, but no statement resets it: \<open>solve_captcha_keeps\<close> above shows
  that the descriptor is the old one unless the response is parsed as a new challenge. The
  evaluation below takes the session whose active challenge is the descriptor the parser
  stores for a challenge page of nine tiles, and a network that answers the submission
  with the success page: the call reports success, the descriptor is still the old one,
  and a second \<^verbatim>\<open>solve_captcha([3, 7])\<close> posts the same form to the same action URL again.
\<close>

theorem solve_captcha_keeps_descriptor_example:
  "fst (solve_captcha (sampleEnv sampleLoad (netPage ''success'')) [3, 7] challengedWorld)
     = \<lparr>content = ''Captcha successfully solved. You should call '' @ dquote @ ''search''
                   @ dquote @ '' tool again.'',
        isError = False\<rparr>
   \<and> captchaState (snd (solve_captcha (sampleEnv sampleLoad (netPage ''success'')) [3, 7]
                          challengedWorld))
     = captchaState challengedWorld
   \<and> map req_url (requests (snd (solve_captcha (sampleEnv sampleLoad (netPage ''success'')) [3, 7]
        (snd (solve_captcha (sampleEnv sampleLoad (netPage ''success'')) [3, 7] challengedWorld)))))
     = [''https://duckduckgo.com/anomaly.js'', ''https://duckduckgo.com/anomaly.js'']
   \<and> map req_body (requests (snd (solve_captcha (sampleEnv sampleLoad (netPage ''success'')) [3, 7]
        (snd (solve_captcha (sampleEnv sampleLoad (netPage ''success'')) [3, 7] challengedWorld)))))
     = [Some ''challenge-submit=go&image-check_c=1&image-check_g=1'',
        Some ''challenge-submit=go&image-check_c=1&image-check_g=1'']"
proof -
  let ?e = "sampleEnv sampleLoad (netPage ''success'')"
  let ?post = "formPost ?e ''https://duckduckgo.com/anomaly.js''
                 (Some ''challenge-submit=go&image-check_c=1&image-check_g=1'')"
  have form: "serialize (buildFormData (captchaState challengedWorld) [3, 7])
                = ''challenge-submit=go&image-check_c=1&image-check_g=1''"
    by (simp add: buildFormData_def challengedWorld_def challengeDescriptor_def orEmpty_def
                  encode_defs)
  have act: "captchaActive (captchaState (challengedWorld\<lparr>requests := rs\<rparr>))" for rs
    by (simp add: captchaActive_def truthy_def sample_defs)
  have url: "new_URL ?e (orEmpty (action (captchaState (challengedWorld\<lparr>requests := rs\<rparr>))))
               ''https://duckduckgo.com'' = Inr ''https://duckduckgo.com/anomaly.js''" for rs
    by (simp add: orEmpty_def sample_defs)
  have net: "fetch ?e log ?post = Response True 200 ''OK'' (Inr ''success'')" for log
    by (simp add: sampleEnv_def netPage_def formPost_def)
  have step: "solve_captcha ?e [3, 7] (challengedWorld\<lparr>requests := rs\<rparr>)
      = (\<lparr>content = ''Captcha successfully solved. You should call '' @ dquote @ ''search''
                   @ dquote @ '' tool again.'', isError = False\<rparr>,
         challengedWorld\<lparr>requests := rs @ [?post]\<rparr>)" for rs
    by (simp add: solve_captcha_respond[OF act url] form net respond_def parse_successPage
                  dataToResult_def)
  have w0: "challengedWorld\<lparr>requests := []\<rparr> = challengedWorld"
    by (simp add: sample_defs)
  from step[of "[]"] have s1: "solve_captcha ?e [3, 7] challengedWorld
      = (\<lparr>content = ''Captcha successfully solved. You should call '' @ dquote @ ''search''
                   @ dquote @ '' tool again.'', isError = False\<rparr>,
         challengedWorld\<lparr>requests := [?post]\<rparr>)"
    by (simp add: w0)
  show ?thesis
    by (simp add: s1 step formPost_def)
qed

section \<open>The checked fields of a submission\<close>

text \<open>
  C6. For every active challenge descriptor with the checkbox names \<open>names\<close> (each of them
  non-empty, as every name the parser stores is: \<open>checkboxNamesOf_nonempty\<close>) and every
  list of indices, the form \<^verbatim>\<open>solve_captcha\<close> builds is the submit field followed by one
  field of value "1" for each list entry \<open>i\<close> with \<open>1 \<le> i \<le> length names\<close>, named by the
  \<open>i\<close>-th checkbox name, in the order of the list. Entries outside that range are
  ignored without an error: the call behaves exactly as the call without them. When the
  action URL resolves, the first request the call issues is the POST of that form,
  serialised, to the action URL.
\<close>

theorem solve_captcha_checked_fields:
  assumes "captchaActive (captchaState w)"
    and "checkboxNames (captchaState w) = Some names"
    and "\<forall>n \<in> set names. n \<noteq> []"
  shows "buildFormData (captchaState w) indices
           = (''challenge-submit'', orEmpty (submitValue (captchaState w)))
             # map (\<lambda>i. (names ! nat (i - 1), ''1''))
                 (filter (\<lambda>i. 1 \<le> i \<and> i \<le> int (length names)) indices)
    \<and> solve_captcha e indices w
        = solve_captcha e (filter (\<lambda>i. 1 \<le> i \<and> i \<le> int (length names)) indices) w
    \<and> (\<forall>actionUrl.
          new_URL e (orEmpty (action (captchaState w))) ''https://duckduckgo.com'' = Inr actionUrl
          \<longrightarrow> (\<exists>extra. requests (snd (solve_captcha e indices w))
                 = requests w
                   @ formPost e actionUrl
                       (Some (serialize (buildFormData (captchaState w) indices)))
                   # extra))"
  using solve_captcha_form [OF assms] .

theorem solve_captcha_checked_fields_witness:
  "captchaActive (captchaState exampleWorld)
   \<and> buildFormData (captchaState exampleWorld) [3, 7]
       = [(''challenge-submit'', ''go''), (''f3'', ''1''), (''f7'', ''1'')]
   \<and> buildFormData (captchaState exampleWorld) [0, 3, 10, 7, - 2]
       = [(''challenge-submit'', ''go''), (''f3'', ''1''), (''f7'', ''1'')]
   \<and> solve_captcha (sampleEnv sampleLoad netDown) [0, 3, 10, 7, - 2] exampleWorld
       = solve_captcha (sampleEnv sampleLoad netDown) [3, 7] exampleWorld
   \<and> (\<exists>extra. requests (snd (solve_captcha (sampleEnv sampleLoad netDown) [3, 7] exampleWorld))
         = formPost (sampleEnv sampleLoad netDown) ''https://duckduckgo.com/anomaly.js''
             (Some ''challenge-submit=go&f3=1&f7=1'') # extra)"
proof -
  let ?names = "[''f1'', ''f2'', ''f3'', ''f4'', ''f5'', ''f6'', ''f7'', ''f8'', ''f9'']"
  have act: "captchaActive (captchaState exampleWorld)"
    by (simp add: captchaActive_def truthy_def exampleWorld_def challengeDescriptor_def)
  have names: "checkboxNames (captchaState exampleWorld) = Some ?names"
    by (simp add: exampleWorld_def challengeDescriptor_def)
  have ne: "\<forall>n \<in> set ?names. n \<noteq> []" by simp
  have sv: "orEmpty (submitValue (captchaState exampleWorld)) = ''go''"
    by (simp add: exampleWorld_def challengeDescriptor_def orEmpty_def)
  have url: "new_URL (sampleEnv sampleLoad netDown)
               (orEmpty (action (captchaState exampleWorld))) ''https://duckduckgo.com''
             = Inr ''https://duckduckgo.com/anomaly.js''"
    by (simp add: exampleWorld_def challengeDescriptor_def orEmpty_def sampleEnv_def)
  have log: "requests exampleWorld = []"
    by (simp add: exampleWorld_def pagedWorld_def freshWorld_def)
  note a = solve_captcha_checked_fields
             [OF act names ne, of "[3, 7]" "sampleEnv sampleLoad netDown"]
  note b = solve_captcha_checked_fields
             [OF act names ne, of "[0, 3, 10, 7, - 2]" "sampleEnv sampleLoad netDown"]
  have f1: "buildFormData (captchaState exampleWorld) [3, 7]
              = [(''challenge-submit'', ''go''), (''f3'', ''1''), (''f7'', ''1'')]"
    using a by (simp add: sv)
  have f2: "buildFormData (captchaState exampleWorld) [0, 3, 10, 7, - 2]
              = [(''challenge-submit'', ''go''), (''f3'', ''1''), (''f7'', ''1'')]"
    using b by (simp add: sv)
  have same: "solve_captcha (sampleEnv sampleLoad netDown) [0, 3, 10, 7, - 2] exampleWorld
                = solve_captcha (sampleEnv sampleLoad netDown) [3, 7] exampleWorld"
    using b by simp
  have ser: "serialize [(''challenge-submit'', ''go''), (''f3'', ''1''), (''f7'', ''1'')]
               = ''challenge-submit=go&f3=1&f7=1''"
    by (simp add: encode_defs)
  from a url obtain extra where
    "requests (snd (solve_captcha (sampleEnv sampleLoad netDown) [3, 7] exampleWorld))
       = requests exampleWorld
         @ formPost (sampleEnv sampleLoad netDown) ''https://duckduckgo.com/anomaly.js''
             (Some (serialize (buildFormData (captchaState exampleWorld) [3, 7])))
         # extra"
    by blast
  then have req: "\<exists>extra.
      requests (snd (solve_captcha (sampleEnv sampleLoad netDown) [3, 7] exampleWorld))
        = formPost (sampleEnv sampleLoad netDown) ''https://duckduckgo.com/anomaly.js''
            (Some ''challenge-submit=go&f3=1&f7=1'') # extra"
    by (simp add: log f1 ser)
  from act f1 f2 same req show ?thesis by blast
qed

section \<open>A challenge with an empty field\<close>

text \<open>
  C10. If the parse of a response detects a challenge and stores its descriptor, and the
  challenge form yields an empty instruction text, an empty form action or an empty
  submit-button value, then the descriptor holds that field as the empty string, and
  every \<^verbatim>\<open>solve_captcha\<close> call made while this descriptor is the stored one returns
  "No CAPTCHA challenge is currently active." and leaves the world as it was, request log
  included: no network request is made.
\<close>

theorem empty_challenge_field_blocks_solve:
  assumes "parseSearchResults e html w0 = (Inr (Captcha err ch imgs), w)"
    and "challengeInstructions (load e html) = [] \<or> challengeAction (load e html) = []
         \<or> challengeSubmitValue (load e html) = []"
  shows "challenge (captchaState w) = Some (challengeInstructions (load e html))
    \<and> action (captchaState w) = Some (challengeAction (load e html))
    \<and> submitValue (captchaState w) = Some (challengeSubmitValue (load e html))
    \<and> images (captchaState w) = Some imgs
    \<and> checkboxNames (captchaState w) \<noteq> None
    \<and> (\<forall>e' indices w2. captchaState w2 = captchaState w \<longrightarrow>
          solve_captcha e' indices w2
            = (\<lparr>content = ''No CAPTCHA challenge is currently active.'', isError = True\<rparr>, w2))"
  using empty_field_inactive [OF assms(1) [unfolded parseSearchResults_def] assms(2)] .

theorem empty_challenge_field_blocks_solve_witness:
  "fst (parseSearchResults (sampleEnv (onePage blankChallengePage) netDown) ''page'' freshWorld)
     = Inr (Captcha ''Search blocked by CAPTCHA challenge.'' ''Select all ducks:''
              (absolute nineSrcs))
   \<and> challengeAction (load (sampleEnv (onePage blankChallengePage) netDown) ''page'') = []
   \<and> action (captchaState
        (snd (parseSearchResults (sampleEnv (onePage blankChallengePage) netDown) ''page''
                freshWorld))) = Some []
   \<and> images (captchaState
        (snd (parseSearchResults (sampleEnv (onePage blankChallengePage) netDown) ''page''
                freshWorld))) = Some (absolute nineSrcs)
   \<and> solve_captcha (sampleEnv (onePage blankChallengePage) netDown) [3, 7]
        (snd (parseSearchResults (sampleEnv (onePage blankChallengePage) netDown) ''page''
                freshWorld))
      = (\<lparr>content = ''No CAPTCHA challenge is currently active.'', isError = True\<rparr>,
         snd (parseSearchResults (sampleEnv (onePage blankChallengePage) netDown) ''page''
                freshWorld))"
proof -
  let ?e = "sampleEnv (onePage blankChallengePage) netDown"
  let ?w = "snd (parseSearchResults ?e ''page'' freshWorld)"
  have ld: "load ?e ''page'' = blankChallengePage"
    by (simp add: sampleEnv_def onePage_def)
  have fstp: "fst (parseSearchResults ?e ''page'' freshWorld)
      = Inr (Captcha ''Search blocked by CAPTCHA challenge.'' ''Select all ducks:''
               (absolute nineSrcs))"
    by (simp add: parseSearchResults_def ld parse_blankChallengePage)
  then have parse: "parseSearchResults ?e ''page'' freshWorld
      = (Inr (Captcha ''Search blocked by CAPTCHA challenge.'' ''Select all ducks:''
                (absolute nineSrcs)), ?w)"
    by (simp add: prod_eq_iff)
  have empty: "challengeAction (load ?e ''page'') = []"
    by (simp only: ld) (simp add: query_defs page_defs dom_defs)
  from empty have disj: "challengeInstructions (load ?e ''page'') = []
      \<or> challengeAction (load ?e ''page'') = [] \<or> challengeSubmitValue (load ?e ''page'') = []"
    by simp
  note t = empty_challenge_field_blocks_solve [OF parse disj]
  from t have "solve_captcha ?e [3, 7] ?w
      = (\<lparr>content = ''No CAPTCHA challenge is currently active.'', isError = True\<rparr>, ?w)"
    by blast
  with t fstp empty show ?thesis by simp
qed

section \<open>Tiles, checkbox names and the compositor\<close>




section \<open>The classification of a response\<close>




section \<open>Result records and the pagination token\<close>




section \<open>The composite image\<close>




end
